theory Spec2Isabelle
  imports Main
begin

section \<open>Go library primitives used by the provider\<close>

text \<open>
  Go strings are byte sequences; they are modelled as \<open>string\<close> (a list of 8-bit
  characters). The functions of package \<open>strings\<close>, \<open>strconv\<close> and \<open>fmt\<close> that the
  provider calls are written out here with the behaviour of the Go standard library.
\<close>

text \<open>\<open>strings.HasPrefix(s, p)\<close>.\<close>

fun HasPrefix :: "string \<Rightarrow> string \<Rightarrow> bool" where
  "HasPrefix s [] = True"
| "HasPrefix [] (p # ps) = False"
| "HasPrefix (c # cs) (p # ps) = (c = p \<and> HasPrefix cs ps)"

text \<open>\<open>strings.Contains(s, substr)\<close>: some position of \<open>s\<close> starts with \<open>substr\<close>.\<close>

fun Contains :: "string \<Rightarrow> string \<Rightarrow> bool" where
  "Contains [] sub = (sub = [])"
| "Contains (c # cs) sub = (HasPrefix (c # cs) sub \<or> Contains cs sub)"

text \<open>
  \<open>strings.Split(s, sep)\<close> for a separator of one byte, which is what every call of the
  provider passes (\<open>" "\<close>, \<open>"\n"\<close>, \<open>":"\<close>, \<open>"="\<close>). The result always has one more
  element than \<open>s\<close> has separators; in particular the empty string splits into one empty
  string.
\<close>

fun Split :: "string \<Rightarrow> char \<Rightarrow> string list" where
  "Split [] sep = [[]]"
| "Split (c # cs) sep =
     (if c = sep then [] # Split cs sep
      else (case Split cs sep of
              [] \<Rightarrow> [[c]]
            | p # ps \<Rightarrow> (c # p) # ps))"

text \<open>
  \<open>strings.TrimSpace(s)\<close> removes the leading and the trailing white-space code points of
  \<open>s\<close>, as \<open>unicode.IsSpace\<close> defines them; \<open>spaceRunes\<close> lists their UTF-8 encodings.
\<close>

definition spaceRunes :: "string list" where
  "spaceRunes =
     [[CHR 0x09], [CHR 0x0A], [CHR 0x0B], [CHR 0x0C], [CHR 0x0D], [CHR 0x20],
      [CHR 0xC2, CHR 0x85], [CHR 0xC2, CHR 0xA0],
      [CHR 0xE1, CHR 0x9A, CHR 0x80],
      [CHR 0xE2, CHR 0x80, CHR 0x80], [CHR 0xE2, CHR 0x80, CHR 0x81],
      [CHR 0xE2, CHR 0x80, CHR 0x82], [CHR 0xE2, CHR 0x80, CHR 0x83],
      [CHR 0xE2, CHR 0x80, CHR 0x84], [CHR 0xE2, CHR 0x80, CHR 0x85],
      [CHR 0xE2, CHR 0x80, CHR 0x86], [CHR 0xE2, CHR 0x80, CHR 0x87],
      [CHR 0xE2, CHR 0x80, CHR 0x88], [CHR 0xE2, CHR 0x80, CHR 0x89],
      [CHR 0xE2, CHR 0x80, CHR 0x8A],
      [CHR 0xE2, CHR 0x80, CHR 0xA8], [CHR 0xE2, CHR 0x80, CHR 0xA9],
      [CHR 0xE2, CHR 0x80, CHR 0xAF],
      [CHR 0xE2, CHR 0x81, CHR 0x9F],
      [CHR 0xE3, CHR 0x80, CHR 0x80]]"

text \<open>The number of bytes of the white-space code point that \<open>s\<close> starts with, or 0.\<close>

definition spaceWidth :: "string \<Rightarrow> nat" where
  "spaceWidth s = (case filter (HasPrefix s) spaceRunes of [] \<Rightarrow> 0 | r # _ \<Rightarrow> length r)"

text \<open>The same for the code point that \<open>s\<close> ends with.\<close>

definition spaceWidthEnd :: "string \<Rightarrow> nat" where
  "spaceWidthEnd s =
     (case filter (\<lambda>r. HasPrefix (rev s) (rev r)) spaceRunes of [] \<Rightarrow> 0 | r # _ \<Rightarrow> length r)"

function TrimLeft :: "string \<Rightarrow> string" where
  "TrimLeft s = (if spaceWidth s = 0 \<or> s = [] then s else TrimLeft (drop (spaceWidth s) s))"
  by pat_completeness auto
termination
  by (relation "measure length") auto

function TrimRight :: "string \<Rightarrow> string" where
  "TrimRight s =
     (if spaceWidthEnd s = 0 \<or> s = [] then s
      else TrimRight (take (length s - spaceWidthEnd s) s))"
  by pat_completeness auto
termination
  by (relation "measure length") auto

definition TrimSpace :: "string \<Rightarrow> string" where
  "TrimSpace s = TrimRight (TrimLeft s)"

text \<open>
  \<open>strconv.ParseInt(s, 10, 64)\<close>. The result is the value and whether an error was
  returned with it. A syntax error gives 0. An unsigned magnitude that leaves the range of
  \<open>uint64\<close> stops the scan at once with the largest \<open>uint64\<close>; a magnitude that
  leaves the range of \<open>int64\<close> gives the nearest bound of \<open>int64\<close>. No underscore is
  accepted for base 10.
\<close>

datatype numError = ErrSyntax | ErrRange

definition isDigit :: "char \<Rightarrow> bool" where
  "isDigit c = (48 \<le> (of_char c :: nat) \<and> (of_char c :: nat) \<le> 57)"

definition maxUint64 :: int where
  "maxUint64 = 2 ^ 64 - 1"

text \<open>
  The digit loop of \<open>strconv.ParseUint\<close> for base 10 and 64 bits; \<open>n\<close> is the value so
  far. A letter is a digit of a larger base and a syntax error here, like any other byte.
\<close>

fun parseUintLoop :: "int \<Rightarrow> string \<Rightarrow> int \<times> numError option" where
  "parseUintLoop n [] = (n, None)"
| "parseUintLoop n (c # cs) =
     (if \<not> isDigit c then (0, Some ErrSyntax)
      else if n \<ge> maxUint64 div 10 + 1 then (maxUint64, Some ErrRange)
      else (let n1 = n * 10 + (of_char c - 48)
            in if n1 > maxUint64 then (maxUint64, Some ErrRange)
               else parseUintLoop n1 cs))"

definition ParseUint :: "string \<Rightarrow> int \<times> numError option" where
  "ParseUint s = (if s = [] then (0, Some ErrSyntax) else parseUintLoop 0 s)"

definition ParseInt :: "string \<Rightarrow> int \<times> numError option" where
  "ParseInt s0 =
     (if s0 = [] then (0, Some ErrSyntax)
      else
        (let neg = (hd s0 = CHR ''-'');
             s = (if hd s0 = CHR ''+'' \<or> hd s0 = CHR ''-'' then tl s0 else s0);
             (un, err) = ParseUint s;
             cutoff = (2::int) ^ 63
         in if err = Some ErrSyntax then (0, err)
            else if \<not> neg \<and> un \<ge> cutoff then (cutoff - 1, Some ErrRange)
            else if neg \<and> un > cutoff then (- cutoff, Some ErrRange)
            else (if neg then - un else un, None)))"

text \<open>The verb \<open>%d\<close> of \<open>fmt.Sprintf\<close> on an \<open>int64\<close>: decimal digits, \<open>-\<close> when negative.\<close>

function decimal :: "nat \<Rightarrow> string" where
  "decimal n = (if n < 10 then [char_of (48 + n)] else decimal (n div 10) @ [char_of (48 + n mod 10)])"
  by pat_completeness auto
termination
  by (relation "measure id") auto

declare decimal.simps [simp del]
declare TrimLeft.simps [simp del]
declare TrimRight.simps [simp del]

definition fmt_d :: "int \<Rightarrow> string" where
  "fmt_d i = (if i < 0 then CHR ''-'' # decimal (nat (- i)) else decimal (nat i))"

section \<open>Values of the plugin framework\<close>

text \<open>
  An attribute value of the framework (\<open>types.String\<close>, \<open>types.Int64\<close>) is null, unknown
  or known. An \<open>int64\<close> is an \<open>int\<close> here: the provider does no arithmetic on these
  values, and the one place that leaves the range, \<open>strconv.ParseInt\<close>, has its clamping
  written out. The Go zero value of these types is the null value. \<open>ValueString\<close> and
  \<open>ValueInt64\<close> give the empty string and 0 for a value that is not known; \<open>Equal\<close>
  compares the state and, for known values, the content, which is the equality of this
  datatype.
\<close>

datatype 'a tfvalue = Null | Unknown | Known 'a

definition IsNull :: "'a tfvalue \<Rightarrow> bool" where
  "IsNull v = (v = Null)"

fun ValueString :: "string tfvalue \<Rightarrow> string" where
  "ValueString (Known s) = s"
| "ValueString _ = []"

fun ValueInt64 :: "int tfvalue \<Rightarrow> int" where
  "ValueInt64 (Known n) = n"
| "ValueInt64 _ = 0"

definition Equal :: "'a tfvalue \<Rightarrow> 'a tfvalue \<Rightarrow> bool" where
  "Equal a b = (a = b)"

section \<open>The client\<close>

record CephClient =
  ConfigFile :: string
  Keyring :: string
  User :: string

text \<open>\<open>CephClient.buildCmdArgs\<close>: the arguments are appended one pair after the other.\<close>

definition buildCmdArgs :: "CephClient \<Rightarrow> string \<Rightarrow> string list" where
  "buildCmdArgs c cmd =
     (let args = Split cmd CHR '' '';
          args = (if ConfigFile c \<noteq> [] then args @ [''--conf'', ConfigFile c] else args);
          args = (if Keyring c \<noteq> [] then args @ [''--keyring'', Keyring c] else args);
          args = (if User c \<noteq> [] then args @ [''--user'', User c] else args)
      in args)"

text \<open>
  The external process. \<open>exec.Command(args[0], args[1:]...).Output()\<close> either fails with
  a message (\<open>Inl\<close>) or gives the standard output (\<open>Inr\<close>). What it answers may depend on
  every command run before, so a runner is a function of the commands issued so far and of
  the arguments of this one; the list of issued commands is the state that every
  operation threads through. \<open>strings.Split\<close> never gives an empty list, so \<open>args[0]\<close>
  always exists.
\<close>

type_synonym reply = "string + string"

type_synonym runner = "string list list \<Rightarrow> string list \<Rightarrow> reply"

definition ExecuteCommand ::
  "CephClient \<Rightarrow> runner \<Rightarrow> string \<Rightarrow> string list list \<Rightarrow> reply \<times> string list list" where
  "ExecuteCommand c run cmd issued =
     (let args = buildCmdArgs c cmd
      in case run issued args of
           Inl err \<Rightarrow> (Inl (''command failed: '' @ err), issued @ [args])
         | Inr out \<Rightarrow> (Inr out, issued @ [args]))"

text \<open>
  What an operation leaves in its response: an error diagnostic with summary and detail,
  the removal of the resource from the state, a new state, or nothing (a delete that
  succeeded).
\<close>

datatype 's outcome = Failed string string | Removed | Stored 's | Finished

section \<open>Pool resource\<close>

record poolResourceModel =
  Name :: "string tfvalue"
  PgNum :: "int tfvalue"
  PgpNum :: "int tfvalue"
  Size :: "int tfvalue"
  MinSize :: "int tfvalue"
  Type :: "string tfvalue"
  CrushRule :: "string tfvalue"

text \<open>
  The body of the loop of \<open>poolResource.Read\<close> over the lines of the output: the two
  \<open>if\<close> statements run one after the other on the same line. The error of
  \<open>strconv.ParseInt\<close> is dropped, the value is stored.
\<close>

definition poolReadLine :: "poolResourceModel \<Rightarrow> string \<Rightarrow> poolResourceModel" where
  "poolReadLine state line =
     (let state =
            (if Contains line ''size:'' then
               (let parts = Split line CHR '':''
                in if length parts = 2
                   then state\<lparr>Size := Known (fst (ParseInt (TrimSpace (parts ! 1))))\<rparr>
                   else state)
             else state);
          state =
            (if Contains line ''min_size:'' then
               (let parts = Split line CHR '':''
                in if length parts = 2
                   then state\<lparr>MinSize := Known (fst (ParseInt (TrimSpace (parts ! 1))))\<rparr>
                   else state)
             else state)
      in state)"

definition poolReadParse :: "poolResourceModel \<Rightarrow> string \<Rightarrow> poolResourceModel" where
  "poolReadParse state output = foldl poolReadLine state (Split output CHR 0x0A)"

definition poolRead ::
  "CephClient \<Rightarrow> runner \<Rightarrow> poolResourceModel \<Rightarrow> string list list
     \<Rightarrow> poolResourceModel outcome \<times> string list list" where
  "poolRead c run state issued =
     (let cmd = ''ceph osd pool get '' @ ValueString (Name state) @ '' all''
      in case ExecuteCommand c run cmd issued of
           (Inl err, issued) \<Rightarrow> (Failed ''Failed to read pool'' err, issued)
         | (Inr output, issued) \<Rightarrow> (Stored (poolReadParse state output), issued))"

text \<open>
  \<open>poolResource.Update\<close> decodes the plan only; the prior state of the request is not
  read. It is an argument here so that the two can be compared.
\<close>

definition poolUpdate ::
  "CephClient \<Rightarrow> runner \<Rightarrow> poolResourceModel \<Rightarrow> poolResourceModel \<Rightarrow> string list list
     \<Rightarrow> poolResourceModel outcome \<times> string list list" where
  "poolUpdate c run plan prior issued =
     (case (if \<not> IsNull (Size plan)
            then ExecuteCommand c run
                   (''ceph osd pool set '' @ ValueString (Name plan) @ '' size '' @
                    fmt_d (ValueInt64 (Size plan))) issued
            else (Inr [], issued)) of
        (Inl err, issued) \<Rightarrow> (Failed ''Failed to update pool size'' err, issued)
      | (Inr _, issued) \<Rightarrow>
          (case (if \<not> IsNull (MinSize plan)
                 then ExecuteCommand c run
                        (''ceph osd pool set '' @ ValueString (Name plan) @ '' min_size '' @
                         fmt_d (ValueInt64 (MinSize plan))) issued
                 else (Inr [], issued)) of
             (Inl err, issued) \<Rightarrow> (Failed ''Failed to update pool min_size'' err, issued)
           | (Inr _, issued) \<Rightarrow> (Stored plan, issued)))"

definition poolDeleteCmd :: "poolResourceModel \<Rightarrow> string" where
  "poolDeleteCmd state =
     ''ceph osd pool delete '' @ ValueString (Name state) @ '' '' @ ValueString (Name state) @
     '' --yes-i-really-really-mean-it''"

definition poolDelete ::
  "CephClient \<Rightarrow> runner \<Rightarrow> poolResourceModel \<Rightarrow> string list list
     \<Rightarrow> poolResourceModel outcome \<times> string list list" where
  "poolDelete c run state issued =
     (case ExecuteCommand c run (poolDeleteCmd state) issued of
        (Inl err, issued) \<Rightarrow> (Failed ''Failed to delete pool'' err, issued)
      | (Inr _, issued) \<Rightarrow> (Finished, issued))"

section \<open>Pool data source\<close>

record poolDataSourceModel =
  dName :: "string tfvalue"
  dPgNum :: "int tfvalue"
  dSize :: "int tfvalue"
  dMinSize :: "int tfvalue"
  dType :: "string tfvalue"

definition poolDataLine :: "poolDataSourceModel \<Rightarrow> string \<Rightarrow> poolDataSourceModel" where
  "poolDataLine state line =
     (let state =
            (if Contains line ''size:'' then
               (let parts = Split line CHR '':''
                in if length parts = 2
                   then state\<lparr>dSize := Known (fst (ParseInt (TrimSpace (parts ! 1))))\<rparr>
                   else state)
             else state);
          state =
            (if Contains line ''min_size:'' then
               (let parts = Split line CHR '':''
                in if length parts = 2
                   then state\<lparr>dMinSize := Known (fst (ParseInt (TrimSpace (parts ! 1))))\<rparr>
                   else state)
             else state);
          state =
            (if Contains line ''pg_num:'' then
               (let parts = Split line CHR '':''
                in if length parts = 2
                   then state\<lparr>dPgNum := Known (fst (ParseInt (TrimSpace (parts ! 1))))\<rparr>
                   else state)
             else state)
      in state)"

definition poolDataParse :: "poolDataSourceModel \<Rightarrow> string \<Rightarrow> poolDataSourceModel" where
  "poolDataParse state output = foldl poolDataLine state (Split output CHR 0x0A)"

definition poolDataRead ::
  "CephClient \<Rightarrow> runner \<Rightarrow> poolDataSourceModel \<Rightarrow> string list list
     \<Rightarrow> poolDataSourceModel outcome \<times> string list list" where
  "poolDataRead c run config issued =
     (case ExecuteCommand c run
             (''ceph osd pool get '' @ ValueString (dName config) @ '' all'') issued of
        (Inl err, issued) \<Rightarrow> (Failed ''Failed to get pool information'' err, issued)
      | (Inr output, issued) \<Rightarrow>
          (let state = \<lparr>dName = dName config, dPgNum = Null, dSize = Null, dMinSize = Null,
                         dType = Null\<rparr>;
               state = poolDataParse state output
           in case ExecuteCommand c run
                     (''ceph osd pool get '' @ ValueString (dName config) @ '' type'') issued of
                (Inl err, issued) \<Rightarrow> (Stored state, issued)
              | (Inr output, issued) \<Rightarrow>
                  (let parts = Split output CHR '':''
                   in if length parts = 2
                      then (Stored (state\<lparr>dType := Known (TrimSpace (parts ! 1))\<rparr>), issued)
                      else (Stored state, issued))))"

section \<open>User resource\<close>

text \<open>\<open>strings.Join(elems, sep)\<close>.\<close>

fun Join :: "string list \<Rightarrow> string \<Rightarrow> string" where
  "Join [] sep = []"
| "Join [x] sep = x"
| "Join (x # y # ys) sep = x @ sep @ Join (y # ys) sep"

record userResourceModel =
  uName :: "string tfvalue"
  Key :: "string tfvalue"

text \<open>
  The capabilities of the plan are decoded into a Go map before they are used; the model
  takes the decoded map as the list of its entries in the order in which the \<open>range\<close>
  loop visits them.
\<close>

definition capsArgs :: "(string \<times> string) list \<Rightarrow> string list" where
  "capsArgs capsMap = concat (map (\<lambda>(daemon, caps). [daemon, caps]) capsMap)"

text \<open>The body of the loop of \<open>userResource.Create\<close> over the lines of the output.\<close>

definition userKeyLine :: "userResourceModel \<Rightarrow> string \<Rightarrow> userResourceModel" where
  "userKeyLine plan line =
     (if Contains line ''key ='' then
        (let parts = Split line CHR ''=''
         in if length parts = 2
            then plan\<lparr>Key := Known (TrimSpace (parts ! 1))\<rparr>
            else plan)
      else plan)"

definition userCreate ::
  "CephClient \<Rightarrow> runner \<Rightarrow> userResourceModel \<Rightarrow> (string \<times> string) list \<Rightarrow> string list list
     \<Rightarrow> userResourceModel outcome \<times> string list list" where
  "userCreate c run plan capsMap issued =
     (let cmd = ''ceph auth get-or-create '' @ ValueString (uName plan) @ '' '' @
                Join (capsArgs capsMap) '' ''
      in case ExecuteCommand c run cmd issued of
           (Inl err, issued) \<Rightarrow> (Failed ''Failed to create user'' err, issued)
         | (Inr output, issued) \<Rightarrow>
             (Stored (foldl userKeyLine plan (Split output CHR 0x0A)), issued))"

definition userRead ::
  "CephClient \<Rightarrow> runner \<Rightarrow> userResourceModel \<Rightarrow> string list list
     \<Rightarrow> userResourceModel outcome \<times> string list list" where
  "userRead c run state issued =
     (let cmd = ''ceph auth get '' @ ValueString (uName state)
      in case ExecuteCommand c run cmd issued of
           (Inl err, issued) \<Rightarrow>
             (if Contains err ''entity does not exist'' then (Removed, issued)
              else (Failed ''Failed to read user'' err, issued))
         | (Inr output, issued) \<Rightarrow>
             (if \<not> Contains output (ValueString (uName state)) then (Removed, issued)
              else (Stored state, issued)))"

section \<open>Decoded JSON\<close>

text \<open>
  A finite \<open>float64\<close>: sign (\<open>True\<close> is negative), mantissa and binary exponent, standing
  for \<open>\<plusminus> m * 2 ^ e\<close>. A JSON number never decodes to an infinity or a NaN.
\<close>

datatype float64 = Float64 bool nat int

text \<open>
  The verb \<open>%.0f\<close> of \<open>fmt.Sprintf\<close>: the nearest integer, a tie going to the even one,
  with the sign kept in front of a zero.
\<close>

definition roundHalfEven :: "nat \<Rightarrow> nat \<Rightarrow> nat" where
  "roundHalfEven m d =
     (let q = m div d; r = m mod d
      in if 2 * r > d \<or> (2 * r = d \<and> odd q) then q + 1 else q)"

fun fmt_f0 :: "float64 \<Rightarrow> string" where
  "fmt_f0 (Float64 neg m e) =
     (if neg then ''-'' else []) @
     decimal (if e \<ge> 0 then m * 2 ^ nat e else roundHalfEven m (2 ^ nat (- e)))"

text \<open>
  What \<open>encoding/json\<close> stores in an \<open>interface{}\<close>: \<open>nil\<close>, \<open>bool\<close>, \<open>float64\<close>,
  \<open>string\<close>, \<open>[]interface{}\<close> or \<open>map[string]interface{}\<close>. A Go map is given by the
  list of its entries.
\<close>

datatype json =
    JNull
  | JBool bool
  | JNumber float64
  | JString string
  | JArray "json list"
  | JObject "(string \<times> json) list"

text \<open>
  \<open>json.Unmarshal\<close> into a variable of type \<open>map[string]interface{}\<close> belongs to the Go
  library and is a parameter of the operations that call it: it gives the message of the
  error (\<open>Inl\<close>) or the decoded map (\<open>Inr\<close>). The document \<open>null\<close> leaves the map
  \<open>nil\<close>, which reads like the empty map.
\<close>

type_synonym decoder = "string \<Rightarrow> string + (string \<times> json) list"

text \<open>Indexing a map: a missing key gives the zero value, the \<open>nil\<close> interface.\<close>

definition mapIndex :: "(string \<times> json) list \<Rightarrow> string \<Rightarrow> json" where
  "mapIndex m k = (case map_of m k of None \<Rightarrow> JNull | Some v \<Rightarrow> v)"

text \<open>\<open>len\<close> of a map: the number of its keys.\<close>

definition mapLen :: "(string \<times> json) list \<Rightarrow> nat" where
  "mapLen m = length (remdups (map fst m))"

text \<open>The type assertions \<open>v.(map[string]interface{})\<close>, \<open>v.(string)\<close>, \<open>v.(float64)\<close>.\<close>

fun asMap :: "json \<Rightarrow> (string \<times> json) list option" where
  "asMap (JObject m) = Some m"
| "asMap _ = None"

fun asString :: "json \<Rightarrow> string option" where
  "asString (JString s) = Some s"
| "asString _ = None"

fun asFloat64 :: "json \<Rightarrow> float64 option" where
  "asFloat64 (JNumber f) = Some f"
| "asFloat64 _ = None"

section \<open>Block image resource\<close>

record blockImageResourceModel =
  iName :: "string tfvalue"
  Pool :: "string tfvalue"
  iSize :: "string tfvalue"
  Features :: "string list tfvalue"

definition blockImageRead ::
  "CephClient \<Rightarrow> decoder \<Rightarrow> runner \<Rightarrow> blockImageResourceModel \<Rightarrow> string list list
     \<Rightarrow> blockImageResourceModel outcome \<times> string list list" where
  "blockImageRead c unmarshal run state issued =
     (let cmd = ''rbd info '' @ ValueString (Pool state) @ ''/'' @ ValueString (iName state) @
                '' --format json''
      in case ExecuteCommand c run cmd issued of
           (Inl err, issued) \<Rightarrow>
             (if Contains err ''No such file or directory'' then (Removed, issued)
              else (Failed ''Failed to read block image'' err, issued))
         | (Inr output, issued) \<Rightarrow>
             (case unmarshal output of
                Inl err \<Rightarrow> (Failed ''Failed to parse image info'' err, issued)
              | Inr imageInfo \<Rightarrow>
                  (case asFloat64 (mapIndex imageInfo ''size'') of
                     Some sz \<Rightarrow> (Stored (state\<lparr>iSize := Known (fmt_f0 sz @ ''B'')\<rparr>), issued)
                   | None \<Rightarrow> (Stored state, issued))))"

definition blockImageUpdate ::
  "CephClient \<Rightarrow> runner \<Rightarrow> blockImageResourceModel \<Rightarrow> blockImageResourceModel
     \<Rightarrow> string list list \<Rightarrow> blockImageResourceModel outcome \<times> string list list" where
  "blockImageUpdate c run plan state issued =
     (case (if \<not> Equal (iSize plan) (iSize state)
            then ExecuteCommand c run
                   (''rbd resize --size '' @ ValueString (iSize plan) @ '' '' @
                    ValueString (Pool plan) @ ''/'' @ ValueString (iName plan)) issued
            else (Inr [], issued)) of
        (Inl err, issued) \<Rightarrow> (Failed ''Failed to resize block image'' err, issued)
      | (Inr _, issued) \<Rightarrow> (Stored plan, issued))"

section \<open>Cluster status data source\<close>

record clusterStatusDataSourceModel =
  Health :: "string tfvalue"
  OSDCount :: "int tfvalue"
  MonCount :: "int tfvalue"
  MGRCount :: "int tfvalue"
  PoolCount :: "int tfvalue"

text \<open>The part of \<open>clusterStatusDataSource.Read\<close> that reads the decoded status.\<close>

definition parseHealth ::
  "(string \<times> json) list \<Rightarrow> clusterStatusDataSourceModel \<Rightarrow> clusterStatusDataSourceModel" where
  "parseHealth status state =
     (case asMap (mapIndex status ''health'') of
        Some health \<Rightarrow>
          (case asString (mapIndex health ''status'') of
             Some healthStatus \<Rightarrow> state\<lparr>Health := Known healthStatus\<rparr>
           | None \<Rightarrow> state)
      | None \<Rightarrow> state)"

definition parseServices ::
  "(string \<times> json) list \<Rightarrow> clusterStatusDataSourceModel \<Rightarrow> clusterStatusDataSourceModel" where
  "parseServices status state =
     (case asMap (mapIndex status ''servicemap'') of
        Some servicemap \<Rightarrow>
          (case asMap (mapIndex servicemap ''services'') of
             Some services \<Rightarrow>
               (let state =
                      (case asMap (mapIndex services ''osd'') of
                         Some osd \<Rightarrow>
                           (case asMap (mapIndex osd ''daemons'') of
                              Some daemons \<Rightarrow> state\<lparr>OSDCount := Known (int (mapLen daemons))\<rparr>
                            | None \<Rightarrow> state)
                       | None \<Rightarrow> state);
                    state =
                      (case asMap (mapIndex services ''mon'') of
                         Some mon \<Rightarrow>
                           (case asMap (mapIndex mon ''daemons'') of
                              Some daemons \<Rightarrow> state\<lparr>MonCount := Known (int (mapLen daemons))\<rparr>
                            | None \<Rightarrow> state)
                       | None \<Rightarrow> state);
                    state =
                      (case asMap (mapIndex services ''mgr'') of
                         Some mgr \<Rightarrow>
                           (case asMap (mapIndex mgr ''daemons'') of
                              Some daemons \<Rightarrow> state\<lparr>MGRCount := Known (int (mapLen daemons))\<rparr>
                            | None \<Rightarrow> state)
                       | None \<Rightarrow> state)
                in state)
           | None \<Rightarrow> state)
      | None \<Rightarrow> state)"

definition clusterStatusRead ::
  "CephClient \<Rightarrow> decoder \<Rightarrow> runner \<Rightarrow> string list list
     \<Rightarrow> clusterStatusDataSourceModel outcome \<times> string list list" where
  "clusterStatusRead c unmarshal run issued =
     (let state = \<lparr>Health = Null, OSDCount = Null, MonCount = Null, MGRCount = Null,
                    PoolCount = Null\<rparr>
      in case ExecuteCommand c run ''ceph status --format json'' issued of
           (Inl err, issued) \<Rightarrow> (Failed ''Failed to get cluster status'' err, issued)
         | (Inr output, issued) \<Rightarrow>
             (case unmarshal output of
                Inl err \<Rightarrow> (Failed ''Failed to parse cluster status'' err, issued)
              | Inr status \<Rightarrow>
                  (let state = parseHealth status state;
                       state = parseServices status state
                   in case ExecuteCommand c run ''ceph osd pool ls'' issued of
                        (Inl err, issued) \<Rightarrow> (Stored state, issued)
                      | (Inr poolOutput, issued) \<Rightarrow>
                          (let pools = Split (TrimSpace poolOutput) CHR 0x0A
                           in (Stored (state\<lparr>PoolCount := Known (int (length pools))\<rparr>),
                               issued)))))"

section \<open>Notions of the specification\<close>

text \<open>
  The flag pairs of the connection context, in the words of the specification: in the
  fixed order config file, keyring, user, one \<open>--flag value\<close> pair for each field that
  is not empty and nothing for an empty one.
\<close>

definition connFlags :: "CephClient \<Rightarrow> string list" where
  "connFlags c =
     (if ConfigFile c = [] then [] else [''--conf'', ConfigFile c]) @
     (if Keyring c = [] then [] else [''--keyring'', Keyring c]) @
     (if User c = [] then [] else [''--user'', User c])"

text \<open>The error that \<open>ExecuteCommand\<close> hands to its caller for a reply of the process.\<close>

definition wrapError :: "reply \<Rightarrow> reply" where
  "wrapError r = (case r of Inl err \<Rightarrow> Inl (''command failed: '' @ err) | Inr out \<Rightarrow> Inr out)"

text \<open>
  Navigating a decoded document by a path of literal keys, in the words of the
  specification: a segment that is absent, or that is looked up in something that is no
  object, gives nothing (the \<open>nil\<close> interface).
\<close>

fun lookupPath :: "json \<Rightarrow> string list \<Rightarrow> json" where
  "lookupPath v [] = v"
| "lookupPath (JObject m) (k # ks) = lookupPath (mapIndex m k) ks"
| "lookupPath v (k # ks) = JNull"

text \<open>
  The fields of the cluster snapshot, each as a lookup of its own: the health is the
  string at \<open>health.status\<close>, the number of daemons of a service is the number of entries
  of the object at \<open>servicemap.services.<service>.daemons\<close>, the number of pools is the
  number of lines of the trimmed pool listing. A lookup that fails gives the null value.
\<close>

definition healthAt :: "(string \<times> json) list \<Rightarrow> string tfvalue" where
  "healthAt status =
     (case lookupPath (JObject status) [''health'', ''status''] of
        JString s \<Rightarrow> Known s
      | _ \<Rightarrow> Null)"

definition daemonCountAt :: "(string \<times> json) list \<Rightarrow> string \<Rightarrow> int tfvalue" where
  "daemonCountAt status service =
     (case lookupPath (JObject status) [''servicemap'', ''services'', service, ''daemons''] of
        JObject daemons \<Rightarrow> Known (int (mapLen daemons))
      | _ \<Rightarrow> Null)"

definition poolCountOf :: "reply \<Rightarrow> int tfvalue" where
  "poolCountOf r =
     (case r of
        Inl err \<Rightarrow> Null
      | Inr poolOutput \<Rightarrow> Known (int (length (Split (TrimSpace poolOutput) CHR 0x0A))))"

text \<open>A field that keeps its old value unless the lookup found one.\<close>

definition setCount :: "int tfvalue \<Rightarrow> int tfvalue \<Rightarrow> int tfvalue" where
  "setCount found old = (case found of Known n \<Rightarrow> Known n | _ \<Rightarrow> old)"

text \<open>The arguments of the property-setting commands of the two Update operations.\<close>

definition poolSetArgs ::
  "CephClient \<Rightarrow> poolResourceModel \<Rightarrow> string \<Rightarrow> int tfvalue \<Rightarrow> string list" where
  "poolSetArgs c plan field v =
     buildCmdArgs c (''ceph osd pool set '' @ ValueString (Name plan) @ '' '' @ field @ '' '' @
                     fmt_d (ValueInt64 v))"

definition resizeArgs :: "CephClient \<Rightarrow> blockImageResourceModel \<Rightarrow> string list" where
  "resizeArgs c plan =
     buildCmdArgs c (''rbd resize --size '' @ ValueString (iSize plan) @ '' '' @
                     ValueString (Pool plan) @ ''/'' @ ValueString (iName plan))"

text \<open>
  The text of a number after its optional sign, and the type that the pool data source
  stores for the answer of its second query: the trimmed text after the colon when the
  answer splits into exactly two parts at the colons, nothing when it does not or when
  the query failed.
\<close>

definition digitsBody :: "string \<Rightarrow> string" where
  "digitsBody s = (if s \<noteq> [] \<and> (hd s = CHR ''+'' \<or> hd s = CHR ''-'') then tl s else s)"

definition poolTypeOf :: "reply \<Rightarrow> string tfvalue" where
  "poolTypeOf r =
     (case r of
        Inl err \<Rightarrow> Null
      | Inr out \<Rightarrow>
          (if length (Split out CHR '':'') = 2 then Known (TrimSpace (Split out CHR '':'' ! 1))
           else Null))"

section \<open>Splitting and running commands\<close>

lemma Split_not_Nil: "Split s sep \<noteq> []"
  by (induction s) (auto split: list.splits)

lemma Split_append_sep: "Split (a @ sep # b) sep = Split a sep @ Split b sep"
proof (induction a)
  case Nil
  show ?case by simp
next
  case (Cons x a)
  then show ?case
    by (cases "Split a sep") (auto simp: Split_not_Nil)
qed

lemma Split_no_sep: "sep \<notin> set s \<Longrightarrow> Split s sep = [s]"
  by (induction s) auto

lemma buildCmdArgs_connFlags: "buildCmdArgs c cmd = Split cmd CHR '' '' @ connFlags c"
  by (simp add: buildCmdArgs_def connFlags_def Let_def)

lemma ExecuteCommand_eq:
  "ExecuteCommand c run cmd issued =
     (wrapError (run issued (buildCmdArgs c cmd)), issued @ [buildCmdArgs c cmd])"
  by (simp add: ExecuteCommand_def wrapError_def Let_def split: sum.splits)

section \<open>Command Builder\<close>

text \<open>
  Claim C5. For every connection context and every logical command, the output of the
  Command Builder is the tokens obtained by splitting the logical command, followed by the
  \<open>--conf\<close> pair exactly when the config file is not empty, then the \<open>--keyring\<close> pair
  exactly when the keyring is not empty, then the \<open>--user\<close> pair exactly when the user
  is not empty.
\<close>

theorem buildCmdArgs_flag_pairs:
  "buildCmdArgs c cmd =
     Split cmd CHR '' '' @
     (if ConfigFile c = [] then [] else [''--conf'', ConfigFile c]) @
     (if Keyring c = [] then [] else [''--keyring'', Keyring c]) @
     (if User c = [] then [] else [''--user'', User c])"
  by (simp add: buildCmdArgs_def Let_def)

theorem buildCmdArgs_flag_pairs_witness:
  "buildCmdArgs \<lparr>ConfigFile = ''/etc/ceph/ceph.conf'', Keyring = [], User = ''admin''\<rparr>
     ''ceph status'' =
     [''ceph'', ''status'', ''--conf'', ''/etc/ceph/ceph.conf'', ''--user'', ''admin'']"
  using buildCmdArgs_flag_pairs
          [of "\<lparr>ConfigFile = ''/etc/ceph/ceph.conf'', Keyring = [], User = ''admin''\<rparr>"
              "''ceph status''"]
  by simp

text \<open>
  Claim C9, as stated: for the empty logical command the output is the empty token sequence
  with only the configured flag pairs. The code gives one more token, the empty string
  that \<open>strings.Split\<close> returns for the empty string.
\<close>

theorem buildCmdArgs_blank_counterexample:
  "buildCmdArgs \<lparr>ConfigFile = ''/etc/ceph/ceph.conf'', Keyring = [], User = []\<rparr> [] =
     [[], ''--conf'', ''/etc/ceph/ceph.conf''] \<and>
   buildCmdArgs \<lparr>ConfigFile = ''/etc/ceph/ceph.conf'', Keyring = [], User = []\<rparr> [] \<noteq>
     [''--conf'', ''/etc/ceph/ceph.conf'']"
  by (simp add: buildCmdArgs_def)

text \<open>
  Claim C9, amended. The Command Builder has no failure: it returns a token sequence for
  every input, and the sequence is never empty, so the first token that
  \<open>ExecuteCommand\<close> reads always exists. For the empty logical command the output is one
  empty token followed by the configured flag pairs.
\<close>

theorem buildCmdArgs_blank:
  "buildCmdArgs c cmd \<noteq> [] \<and> buildCmdArgs c [] = [] # connFlags c"
  by (simp add: buildCmdArgs_connFlags Split_not_Nil)

theorem buildCmdArgs_blank_witness:
  "buildCmdArgs \<lparr>ConfigFile = [], Keyring = ''/etc/ceph/keyring'', User = ''admin''\<rparr> [] =
     [[], ''--keyring'', ''/etc/ceph/keyring'', ''--user'', ''admin'']"
  using buildCmdArgs_blank
          [of "\<lparr>ConfigFile = [], Keyring = ''/etc/ceph/keyring'', User = ''admin''\<rparr>" "[]"]
  by (simp add: connFlags_def)

section \<open>Pool deletion\<close>

lemma Split_poolDeleteCmd:
  "Split (poolDeleteCmd state) CHR '' '' =
     [''ceph'', ''osd'', ''pool'', ''delete''] @
     Split (ValueString (Name state)) CHR '' '' @ Split (ValueString (Name state)) CHR '' '' @
     [''--yes-i-really-really-mean-it'']"
proof -
  have "poolDeleteCmd state =
      ''ceph osd pool delete'' @ CHR '' '' # (ValueString (Name state) @ CHR '' '' #
        (ValueString (Name state) @ CHR '' '' # ''--yes-i-really-really-mean-it''))"
    by (simp add: poolDeleteCmd_def)
  then show ?thesis
    by (simp only: Split_append_sep) simp
qed

text \<open>
  Claim C4, as stated: for every pool name the emitted command holds the name twice. The
  command is split at every space, so a name with a space in it is no argument of the
  command that runs.
\<close>

theorem poolDelete_name_counterexample:
  "snd (poolDelete \<lparr>ConfigFile = [], Keyring = [], User = []\<rparr> (\<lambda>issued args. Inr [])
         \<lparr>Name = Known ''a b'', PgNum = Null, PgpNum = Null, Size = Null, MinSize = Null,
           Type = Null, CrushRule = Null\<rparr> []) =
     [[''ceph'', ''osd'', ''pool'', ''delete'', ''a'', ''b'', ''a'', ''b'',
       ''--yes-i-really-really-mean-it'']] \<and>
   ''a b'' \<notin> set (buildCmdArgs \<lparr>ConfigFile = [], Keyring = [], User = []\<rparr>
                      (poolDeleteCmd \<lparr>Name = Known ''a b'', PgNum = Null, PgpNum = Null,
                         Size = Null, MinSize = Null, Type = Null, CrushRule = Null\<rparr>))"
  by (simp add: poolDelete_def ExecuteCommand_def buildCmdArgs_def poolDeleteCmd_def)

text \<open>
  Claim C4, amended. Pool Delete issues exactly one command: \<open>ceph osd pool delete\<close>, the
  tokens of the name twice, the force-confirmation token and the flag pairs. For every
  name without a space, whatever other characters it has, the name itself is the fifth
  and the sixth argument.
\<close>

theorem poolDelete_name_twice:
  "snd (poolDelete c run state issued) =
     issued @ [[''ceph'', ''osd'', ''pool'', ''delete''] @
               Split (ValueString (Name state)) CHR '' '' @
               Split (ValueString (Name state)) CHR '' '' @
               [''--yes-i-really-really-mean-it''] @ connFlags c] \<and>
   (CHR '' '' \<notin> set (ValueString (Name state)) \<longrightarrow>
    snd (poolDelete c run state issued) =
      issued @ [[''ceph'', ''osd'', ''pool'', ''delete'', ValueString (Name state),
                 ValueString (Name state), ''--yes-i-really-really-mean-it''] @ connFlags c])"
proof -
  have "snd (poolDelete c run state issued) = issued @ [buildCmdArgs c (poolDeleteCmd state)]"
    by (simp add: poolDelete_def ExecuteCommand_eq split: sum.splits)
  then show ?thesis
    by (simp add: buildCmdArgs_connFlags Split_poolDeleteCmd Split_no_sep)
qed

theorem poolDelete_name_twice_witness:
  "CHR '' '' \<notin> set ''test-pool;$x'' \<and>
   snd (poolDelete \<lparr>ConfigFile = [], Keyring = [], User = ''admin''\<rparr> (\<lambda>issued args. Inr [])
         \<lparr>Name = Known ''test-pool;$x'', PgNum = Null, PgpNum = Null, Size = Null,
           MinSize = Null, Type = Null, CrushRule = Null\<rparr> []) =
     [[''ceph'', ''osd'', ''pool'', ''delete'', ''test-pool;$x'', ''test-pool;$x'',
       ''--yes-i-really-really-mean-it'', ''--user'', ''admin'']]"
  using poolDelete_name_twice
          [of "\<lparr>ConfigFile = [], Keyring = [], User = ''admin''\<rparr>" "\<lambda>issued args. Inr []"
              "\<lparr>Name = Known ''test-pool;$x'', PgNum = Null, PgpNum = Null, Size = Null,
                MinSize = Null, Type = Null, CrushRule = Null\<rparr>" "[]"]
  by (simp add: connFlags_def)

section \<open>Reading a user\<close>

lemma Contains_wrapped:
  "Contains (''command failed: '' @ msg) ''entity does not exist'' =
   Contains msg ''entity does not exist''"
  by simp

text \<open>
  Claim C7. When the query of the user Read fails, whatever the message: the resource is
  removed from the state exactly when the error contains \<open>entity does not exist\<close>, and
  every other error is reported as the diagnostic \<open>Failed to read user\<close>. The error that
  Read sees is the message of the process behind the prefix \<open>command failed: \<close>, and it
  contains the marker exactly when the message of the process does.
\<close>

theorem userRead_error:
  assumes "run issued (buildCmdArgs c (''ceph auth get '' @ ValueString (uName state))) = Inl msg"
  shows "fst (userRead c run state issued) =
           (if Contains (''command failed: '' @ msg) ''entity does not exist'' then Removed
            else Failed ''Failed to read user'' (''command failed: '' @ msg)) \<and>
         (fst (userRead c run state issued) = Removed \<longleftrightarrow>
            Contains msg ''entity does not exist'')"
proof -
  have ex: "ExecuteCommand c run (''ceph auth get '' @ ValueString (uName state)) issued =
      (Inl (''command failed: '' @ msg),
       issued @ [buildCmdArgs c (''ceph auth get '' @ ValueString (uName state))])"
    using assms by (simp only: ExecuteCommand_eq wrapError_def sum.case)
  have r: "fst (userRead c run state issued) =
           (if Contains (''command failed: '' @ msg) ''entity does not exist'' then Removed
            else Failed ''Failed to read user'' (''command failed: '' @ msg))"
    unfolding userRead_def Let_def ex by simp
  show ?thesis
    unfolding r Contains_wrapped by simp
qed

theorem userRead_error_witness:
  "fst (userRead \<lparr>ConfigFile = [], Keyring = [], User = []\<rparr>
          (\<lambda>issued args. Inl ''Error ENOENT: entity does not exist'')
          \<lparr>uName = Known ''client.test'', Key = Null\<rparr> []) = Removed \<and>
   fst (userRead \<lparr>ConfigFile = [], Keyring = [], User = []\<rparr>
          (\<lambda>issued args. Inl ''exit status 1'')
          \<lparr>uName = Known ''client.test'', Key = Null\<rparr> []) =
     Failed ''Failed to read user'' ''command failed: exit status 1''"
  using userRead_error
          [of "\<lambda>issued args. Inl ''Error ENOENT: entity does not exist''" "[]"
              "\<lparr>ConfigFile = [], Keyring = [], User = []\<rparr>"
              "\<lparr>uName = Known ''client.test'', Key = Null\<rparr>"
              "''Error ENOENT: entity does not exist''"]
        userRead_error
          [of "\<lambda>issued args. Inl ''exit status 1''" "[]"
              "\<lparr>ConfigFile = [], Keyring = [], User = []\<rparr>"
              "\<lparr>uName = Known ''client.test'', Key = Null\<rparr>"
              "''exit status 1''"]
  by simp

text \<open>
  Claim C10. When the query of the user Read succeeds, the resource is removed from the
  state whenever the output does not contain the name of the user; the prior state is
  stored only when it does.
\<close>

theorem userRead_output_without_name:
  assumes "run issued (buildCmdArgs c (''ceph auth get '' @ ValueString (uName state))) =
             Inr output"
  shows "fst (userRead c run state issued) =
           (if Contains output (ValueString (uName state)) then Stored state else Removed)"
proof -
  have ex: "ExecuteCommand c run (''ceph auth get '' @ ValueString (uName state)) issued =
      (Inr output, issued @ [buildCmdArgs c (''ceph auth get '' @ ValueString (uName state))])"
    using assms by (simp only: ExecuteCommand_eq wrapError_def sum.case)
  show ?thesis
    unfolding userRead_def Let_def ex by simp
qed

theorem userRead_output_without_name_witness:
  "fst (userRead \<lparr>ConfigFile = [], Keyring = [], User = []\<rparr>
          (\<lambda>issued args. Inr ''[client.other]'')
          \<lparr>uName = Known ''client.test'', Key = Null\<rparr> []) = Removed"
  using userRead_output_without_name
          [of "\<lambda>issued args. Inr ''[client.other]''" "[]"
              "\<lparr>ConfigFile = [], Keyring = [], User = []\<rparr>"
              "\<lparr>uName = Known ''client.test'', Key = Null\<rparr>" "''[client.other]''"]
  by simp

section \<open>Creating a user\<close>

text \<open>
  Claim C8. The secret is the trimmed right-hand side of the output line that holds the
  marker \<open>key =\<close>. The code takes the right-hand side only when the line has exactly one
  \<open>=\<close>: for the line \<open>key = AQBSdFIsAAAAABAAq0kdSiyNTBDWxbt8PsnVfA==\<close>, a key with
  the padding of its encoding, the key of the plan stays as it was (first equation), while
  the same line without the padding sets it (second equation).
\<close>

theorem userCreate_key_with_padding:
  "fst (userCreate \<lparr>ConfigFile = [], Keyring = [], User = []\<rparr>
          (\<lambda>issued args. Inr (''[client.test]'' @ [CHR 0x0A, CHR 0x09] @
                               ''key = AQBSdFIsAAAAABAAq0kdSiyNTBDWxbt8PsnVfA=='' @ [CHR 0x0A]))
          \<lparr>uName = Known ''client.test'', Key = Unknown\<rparr>
          [(''mon'', ''allow r'')] []) =
     Stored \<lparr>uName = Known ''client.test'', Key = Unknown\<rparr> \<and>
   fst (userCreate \<lparr>ConfigFile = [], Keyring = [], User = []\<rparr>
          (\<lambda>issued args. Inr (''[client.test]'' @ [CHR 0x0A, CHR 0x09] @
                               ''key = AQBSdFIsAAAAABAAq0kdSiyNTBDWxbt8PsnVfA'' @ [CHR 0x0A]))
          \<lparr>uName = Known ''client.test'', Key = Unknown\<rparr>
          [(''mon'', ''allow r'')] []) =
     Stored \<lparr>uName = Known ''client.test'',
              Key = Known ''AQBSdFIsAAAAABAAq0kdSiyNTBDWxbt8PsnVfA''\<rparr>"
  by code_simp

section \<open>Reading a pool\<close>

text \<open>
  Claim C1. Parsing \<open>size: 3\<close>, \<open>min_size: 2\<close> gives size 3 and min_size 2, and a line
  whose key is not a recognised field changes nothing. The code looks for \<open>size:\<close>
  anywhere in the line, so the line \<open>min_size: 2\<close> sets the size as well: the pool Read
  and the parser of the pool data source both end with size 2, and the line
  \<open>target_size: 7\<close>, whose key is no field of the record, sets the size to 7.
\<close>

theorem poolRead_min_size_line_sets_size:
  "fst (poolRead \<lparr>ConfigFile = [], Keyring = [], User = []\<rparr>
          (\<lambda>issued args. Inr (''size: 3'' @ [CHR 0x0A] @ ''min_size: 2'' @ [CHR 0x0A]))
          \<lparr>Name = Known ''test-pool'', PgNum = Known 32, PgpNum = Known 32, Size = Known 3,
            MinSize = Known 2, Type = Null, CrushRule = Null\<rparr> []) =
     Stored \<lparr>Name = Known ''test-pool'', PgNum = Known 32, PgpNum = Known 32, Size = Known 2,
              MinSize = Known 2, Type = Null, CrushRule = Null\<rparr> \<and>
   poolDataParse \<lparr>dName = Known ''rbd'', dPgNum = Null, dSize = Null, dMinSize = Null,
                   dType = Null\<rparr>
     (''size: 3'' @ [CHR 0x0A] @ ''min_size: 2'' @ [CHR 0x0A]) =
     \<lparr>dName = Known ''rbd'', dPgNum = Null, dSize = Known 2, dMinSize = Known 2, dType = Null\<rparr> \<and>
   poolReadLine \<lparr>Name = Known ''test-pool'', PgNum = Known 32, PgpNum = Known 32,
                  Size = Known 3, MinSize = Known 2, Type = Null, CrushRule = Null\<rparr>
     ''target_size: 7'' =
     \<lparr>Name = Known ''test-pool'', PgNum = Known 32, PgpNum = Known 32, Size = Known 7,
       MinSize = Known 2, Type = Null, CrushRule = Null\<rparr>"
  by code_simp

section \<open>Updating pools and block images\<close>

text \<open>
  Claim C2, as stated: Update issues a property-setting command only for a field whose
  desired value differs from the prior state. The pool Update with a plan equal to the
  prior state issues both set commands.
\<close>

theorem poolUpdate_unchanged_counterexample:
  "snd (poolUpdate \<lparr>ConfigFile = [], Keyring = [], User = []\<rparr> (\<lambda>issued args. Inr [])
         \<lparr>Name = Known ''test-pool'', PgNum = Known 32, PgpNum = Known 32, Size = Known 3,
           MinSize = Known 2, Type = Null, CrushRule = Null\<rparr>
         \<lparr>Name = Known ''test-pool'', PgNum = Known 32, PgpNum = Known 32, Size = Known 3,
           MinSize = Known 2, Type = Null, CrushRule = Null\<rparr> []) =
     [[''ceph'', ''osd'', ''pool'', ''set'', ''test-pool'', ''size'', ''3''],
      [''ceph'', ''osd'', ''pool'', ''set'', ''test-pool'', ''min_size'', ''2'']]"
  by code_simp

text \<open>
  Claim C2, amended. The block image Update issues the resize command exactly when the
  size of the plan differs from the size of the prior state, and no command when they are
  equal. The pool Update does not look at the prior state: it issues the command that
  sets the size exactly when the size of the plan is not null, and then the command that
  sets min_size exactly when min_size of the plan is not null and the size command, if
  one was issued, did not fail.
\<close>

theorem update_issued_commands:
  "snd (blockImageUpdate c run plan state issued) =
     (if iSize plan = iSize state then issued else issued @ [resizeArgs c plan]) \<and>
   snd (poolUpdate c run' pplan prior issued') =
     (if Size pplan = Null then
        (if MinSize pplan = Null then issued'
         else issued' @ [poolSetArgs c pplan ''min_size'' (MinSize pplan)])
      else if isl (run' issued' (poolSetArgs c pplan ''size'' (Size pplan))) then
        issued' @ [poolSetArgs c pplan ''size'' (Size pplan)]
      else if MinSize pplan = Null then issued' @ [poolSetArgs c pplan ''size'' (Size pplan)]
      else issued' @ [poolSetArgs c pplan ''size'' (Size pplan),
                     poolSetArgs c pplan ''min_size'' (MinSize pplan)])"
proof
  show "snd (blockImageUpdate c run plan state issued) =
          (if iSize plan = iSize state then issued else issued @ [resizeArgs c plan])"
    by (simp add: blockImageUpdate_def Equal_def ExecuteCommand_eq resizeArgs_def wrapError_def
             split: sum.splits)
next
  show "snd (poolUpdate c run' pplan prior issued') =
     (if Size pplan = Null then
        (if MinSize pplan = Null then issued'
         else issued' @ [poolSetArgs c pplan ''min_size'' (MinSize pplan)])
      else if isl (run' issued' (poolSetArgs c pplan ''size'' (Size pplan))) then
        issued' @ [poolSetArgs c pplan ''size'' (Size pplan)]
      else if MinSize pplan = Null then issued' @ [poolSetArgs c pplan ''size'' (Size pplan)]
      else issued' @ [poolSetArgs c pplan ''size'' (Size pplan),
                     poolSetArgs c pplan ''min_size'' (MinSize pplan)])"
    by (simp add: poolUpdate_def IsNull_def ExecuteCommand_eq poolSetArgs_def wrapError_def
             split: sum.splits)
qed

theorem update_issued_commands_witness:
  "snd (blockImageUpdate \<lparr>ConfigFile = [], Keyring = [], User = []\<rparr> (\<lambda>issued args. Inr [])
         \<lparr>iName = Known ''img'', Pool = Known ''rbd'', iSize = Known ''1G'', Features = Null\<rparr>
         \<lparr>iName = Known ''img'', Pool = Known ''rbd'', iSize = Known ''1G'', Features = Null\<rparr>
         []) = [] \<and>
   snd (blockImageUpdate \<lparr>ConfigFile = [], Keyring = [], User = []\<rparr> (\<lambda>issued args. Inr [])
         \<lparr>iName = Known ''img'', Pool = Known ''rbd'', iSize = Known ''2G'', Features = Null\<rparr>
         \<lparr>iName = Known ''img'', Pool = Known ''rbd'', iSize = Known ''1G'', Features = Null\<rparr>
         []) = [[''rbd'', ''resize'', ''--size'', ''2G'', ''rbd/img'']] \<and>
   snd (poolUpdate \<lparr>ConfigFile = [], Keyring = [], User = []\<rparr> (\<lambda>issued args. Inr [])
         \<lparr>Name = Known ''test-pool'', PgNum = Known 32, PgpNum = Known 32, Size = Null,
           MinSize = Null, Type = Null, CrushRule = Null\<rparr>
         \<lparr>Name = Known ''test-pool'', PgNum = Known 32, PgpNum = Known 32, Size = Known 3,
           MinSize = Known 2, Type = Null, CrushRule = Null\<rparr> []) = []"
  using update_issued_commands
          [of "\<lparr>ConfigFile = [], Keyring = [], User = []\<rparr>" "\<lambda>issued args. Inr []"
              "\<lparr>iName = Known ''img'', Pool = Known ''rbd'', iSize = Known ''1G'',
                Features = Null\<rparr>"
              "\<lparr>iName = Known ''img'', Pool = Known ''rbd'', iSize = Known ''1G'',
                Features = Null\<rparr>"
              "[]" "\<lambda>issued args. Inr []"
              "\<lparr>Name = Known ''test-pool'', PgNum = Known 32, PgpNum = Known 32, Size = Null,
                MinSize = Null, Type = Null, CrushRule = Null\<rparr>"
              "\<lparr>Name = Known ''test-pool'', PgNum = Known 32, PgpNum = Known 32,
                Size = Known 3, MinSize = Known 2, Type = Null, CrushRule = Null\<rparr>" "[]"]
        update_issued_commands
          [of "\<lparr>ConfigFile = [], Keyring = [], User = []\<rparr>" "\<lambda>issued args. Inr []"
              "\<lparr>iName = Known ''img'', Pool = Known ''rbd'', iSize = Known ''2G'',
                Features = Null\<rparr>"
              "\<lparr>iName = Known ''img'', Pool = Known ''rbd'', iSize = Known ''1G'',
                Features = Null\<rparr>"
              "[]"]
  by (simp add: resizeArgs_def buildCmdArgs_def)

section \<open>Reading the cluster status\<close>

lemma asMap_eq: "asMap v = (case v of JObject m \<Rightarrow> Some m | _ \<Rightarrow> None)"
  by (cases v) simp_all

lemma asString_eq: "asString v = (case v of JString s \<Rightarrow> Some s | _ \<Rightarrow> None)"
  by (cases v) simp_all

lemma asFloat64_eq: "asFloat64 v = (case v of JNumber f \<Rightarrow> Some f | _ \<Rightarrow> None)"
  by (cases v) simp_all

lemma lookupPath_JNull: "lookupPath JNull ks = JNull"
  by (cases ks) simp_all

lemma parseHealth_eq:
  "parseHealth status state = (case healthAt status of Known s \<Rightarrow> state\<lparr>Health := Known s\<rparr> | _ \<Rightarrow> state)"
proof (cases "mapIndex status ''health''")
  case (JObject health)
  then show ?thesis
    by (cases "mapIndex health ''status''") (simp_all add: parseHealth_def healthAt_def)
qed (simp_all add: parseHealth_def healthAt_def)

lemma daemonCountAt_services:
  assumes "mapIndex status ''servicemap'' = JObject servicemap"
      and "mapIndex servicemap ''services'' = JObject services"
  shows "daemonCountAt status service =
           (case asMap (mapIndex services service) of
              Some d \<Rightarrow> (case asMap (mapIndex d ''daemons'') of
                            Some daemons \<Rightarrow> Known (int (mapLen daemons)) | None \<Rightarrow> Null)
            | None \<Rightarrow> Null)"
proof (cases "mapIndex services service")
  case (JObject d)
  then show ?thesis using assms
    by (cases "mapIndex d ''daemons''") (simp_all add: daemonCountAt_def)
qed (simp_all add: daemonCountAt_def assms)

lemma daemonCountAt_no_servicemap:
  "asMap (mapIndex status ''servicemap'') = None \<Longrightarrow> daemonCountAt status service = Null"
  by (cases "mapIndex status ''servicemap''") (simp_all add: daemonCountAt_def)

lemma daemonCountAt_no_services:
  "mapIndex status ''servicemap'' = JObject servicemap \<Longrightarrow>
   asMap (mapIndex servicemap ''services'') = None \<Longrightarrow> daemonCountAt status service = Null"
  by (cases "mapIndex servicemap ''services''") (simp_all add: daemonCountAt_def)

lemma parseServices_eq:
  "parseServices status state =
     state\<lparr>OSDCount := setCount (daemonCountAt status ''osd'') (OSDCount state),
           MonCount := setCount (daemonCountAt status ''mon'') (MonCount state),
           MGRCount := setCount (daemonCountAt status ''mgr'') (MGRCount state)\<rparr>"
proof (cases "asMap (mapIndex status ''servicemap'')")
  case None
  then show ?thesis
    by (simp add: parseServices_def daemonCountAt_no_servicemap setCount_def)
next
  case (Some servicemap)
  then have sm: "mapIndex status ''servicemap'' = JObject servicemap"
    by (cases "mapIndex status ''servicemap''") simp_all
  show ?thesis
  proof (cases "asMap (mapIndex servicemap ''services'')")
    case None
    then show ?thesis
      using Some by (simp add: parseServices_def daemonCountAt_no_services [OF sm] setCount_def)
  next
    case (Some services)
    then have sv: "mapIndex servicemap ''services'' = JObject services"
      by (cases "mapIndex servicemap ''services''") simp_all
    show ?thesis
      using Some \<open>asMap (mapIndex status ''servicemap'') = Some servicemap\<close>
      by (simp add: parseServices_def Let_def daemonCountAt_services [OF sm sv] setCount_def
               split: option.splits)
  qed
qed

text \<open>
  Claim C6, as stated: no failing lookup aborts the snapshot. When the status query fails,
  Read stops with a diagnostic and stores no state, although the pool listing would have
  answered.
\<close>

theorem clusterStatusRead_abort_counterexample:
  "fst (clusterStatusRead \<lparr>ConfigFile = [], Keyring = [], User = []\<rparr> (\<lambda>doc. Inr [])
          (\<lambda>issued args. if args = [''ceph'', ''status'', ''--format'', ''json'']
                           then Inl ''exit status 1''
                           else Inr (''rbd'' @ [CHR 0x0A] @ ''images'' @ [CHR 0x0A])) []) =
     Failed ''Failed to get cluster status'' ''command failed: exit status 1''"
  by code_simp

text \<open>
  Claim C6, amended. The snapshot stops with a diagnostic when the status query fails or
  when its output cannot be decoded. In every other case it succeeds, and each field is
  the result of its own lookup: the health is set exactly when \<open>health.status\<close> is a
  string, each daemon count exactly when \<open>servicemap.services.<service>.daemons\<close> is an
  object, the pool count exactly when the pool listing succeeds; a lookup that fails
  leaves its field null and changes no other field.
\<close>

theorem clusterStatusRead_fields:
  "fst (clusterStatusRead c unmarshal run issued) =
     (case run issued (buildCmdArgs c ''ceph status --format json'') of
        Inl err \<Rightarrow> Failed ''Failed to get cluster status'' (''command failed: '' @ err)
      | Inr output \<Rightarrow>
          (case unmarshal output of
             Inl err \<Rightarrow> Failed ''Failed to parse cluster status'' err
           | Inr status \<Rightarrow>
               Stored \<lparr>Health = healthAt status,
                       OSDCount = daemonCountAt status ''osd'',
                       MonCount = daemonCountAt status ''mon'',
                       MGRCount = daemonCountAt status ''mgr'',
                       PoolCount =
                         poolCountOf
                           (run (issued @ [buildCmdArgs c ''ceph status --format json''])
                              (buildCmdArgs c ''ceph osd pool ls''))\<rparr>))"
proof (cases "run issued (buildCmdArgs c ''ceph status --format json'')")
  case (Inl err)
  then show ?thesis
    by (simp add: clusterStatusRead_def ExecuteCommand_eq wrapError_def)
next
  case (Inr out)
  show ?thesis
  proof (cases "unmarshal out")
    case (Inl err)
    then show ?thesis
      using Inr by (simp add: clusterStatusRead_def ExecuteCommand_eq wrapError_def)
  next
    case (Inr status)
    have h: "healthAt status = Null \<or> (\<exists>s. healthAt status = Known s)"
      by (simp add: healthAt_def split: json.splits)
    have d: "\<And>svc. daemonCountAt status svc = Null \<or> (\<exists>n. daemonCountAt status svc = Known n)"
      by (simp add: daemonCountAt_def split: json.splits)
    have st: "parseServices status (parseHealth status
                \<lparr>Health = Null, OSDCount = Null, MonCount = Null, MGRCount = Null, PoolCount = Null\<rparr>) =
              \<lparr>Health = healthAt status, OSDCount = daemonCountAt status ''osd'',
                MonCount = daemonCountAt status ''mon'', MGRCount = daemonCountAt status ''mgr'',
                PoolCount = Null\<rparr>"
      using h d [of "''osd''"] d [of "''mon''"] d [of "''mgr''"]
      by (auto simp add: parseServices_eq parseHealth_eq setCount_def)
    show ?thesis
      using Inr \<open>run issued (buildCmdArgs c ''ceph status --format json'') = Inr out\<close>
      by (simp add: clusterStatusRead_def ExecuteCommand_eq wrapError_def Let_def st poolCountOf_def
               split: sum.splits)
  qed
qed

theorem clusterStatusRead_fields_witness:
  "fst (clusterStatusRead \<lparr>ConfigFile = [], Keyring = [], User = []\<rparr>
          (\<lambda>doc. Inr [(''health'', JObject [(''status'', JString ''HEALTH_OK'')]),
                       (''servicemap'', JObject [(''services'',
                           JObject [(''osd'', JObject [(''daemons'',
                                       JObject [(''0'', JObject []), (''1'', JObject [])])]),
                                    (''mon'', JString ''none'')])])])
          (\<lambda>issued args. if args = [''ceph'', ''status'', ''--format'', ''json'']
                           then Inr ''{}''
                           else Inl ''exit status 1'') []) =
     Stored \<lparr>Health = Known ''HEALTH_OK'', OSDCount = Known 2, MonCount = Null,
              MGRCount = Null, PoolCount = Null\<rparr>"
  using clusterStatusRead_fields [of "\<lparr>ConfigFile = [], Keyring = [], User = []\<rparr>"
          "\<lambda>doc. Inr [(''health'', JObject [(''status'', JString ''HEALTH_OK'')]),
                       (''servicemap'', JObject [(''services'',
                           JObject [(''osd'', JObject [(''daemons'',
                                       JObject [(''0'', JObject []), (''1'', JObject [])])]),
                                    (''mon'', JString ''none'')])])]"
          "\<lambda>issued args. if args = [''ceph'', ''status'', ''--format'', ''json'']
                           then Inr ''{}''
                           else Inl ''exit status 1''" "[]"]
  by (simp add: buildCmdArgs_def healthAt_def daemonCountAt_def poolCountOf_def mapIndex_def mapLen_def)

section \<open>Parse failures\<close>

subsection \<open>Substrings and lines\<close>

lemma HasPrefix_iff: "HasPrefix s p \<longleftrightarrow> (\<exists>post. s = p @ post)"
  by (induction s p rule: HasPrefix.induct) auto

lemma Contains_iff: "Contains s sub \<longleftrightarrow> (\<exists>pre post. s = pre @ sub @ post)"
proof (induction s)
  case Nil
  then show ?case by auto
next
  case (Cons c cs)
  show ?case
  proof
    assume "Contains (c # cs) sub"
    then consider "HasPrefix (c # cs) sub" | "Contains cs sub" by auto
    then show "\<exists>pre post. c # cs = pre @ sub @ post"
    proof cases
      case 1
      then obtain post where "c # cs = sub @ post" by (auto simp: HasPrefix_iff)
      then have "c # cs = [] @ sub @ post" by simp
      then show ?thesis by blast
    next
      case 2
      then obtain pre post where "cs = pre @ sub @ post" using Cons.IH by blast
      then have "c # cs = (c # pre) @ sub @ post" by simp
      then show ?thesis by blast
    qed
  next
    assume "\<exists>pre post. c # cs = pre @ sub @ post"
    then obtain pre post where e: "c # cs = pre @ sub @ post" by blast
    show "Contains (c # cs) sub"
    proof (cases pre)
      case Nil
      then have "HasPrefix (c # cs) sub" using e by (auto simp: HasPrefix_iff)
      then show ?thesis by simp
    next
      case (Cons p pre')
      then have "cs = pre' @ sub @ post" using e by simp
      then have "Contains cs sub" using Cons.IH by blast
      then show ?thesis by simp
    qed
  qed
qed

lemma Contains_set: "Contains s sub \<Longrightarrow> set sub \<subseteq> set s"
  by (auto simp: Contains_iff)

lemma Contains_suffix: "Contains s (p @ q) \<Longrightarrow> Contains s q"
proof -
  assume "Contains s (p @ q)"
  then obtain pre post where "s = pre @ (p @ q) @ post" by (auto simp: Contains_iff)
  then have "s = (pre @ p) @ q @ post" by simp
  then show ?thesis unfolding Contains_iff by blast
qed

lemma Contains_min_size: "Contains line ''min_size:'' \<Longrightarrow> Contains line ''size:''"
  using Contains_suffix [of line "''min_''" "''size:''"] by simp

lemma poolReadLine_unchanged:
  "\<not> Contains line ''size:'' \<or> length (Split line CHR '':'') \<noteq> 2 \<Longrightarrow> poolReadLine st line = st"
  using Contains_min_size [of line] by (auto simp: poolReadLine_def Let_def)

lemma poolDataLine_unchanged:
  "(\<not> Contains line ''size:'' \<and> \<not> Contains line ''pg_num:'') \<or> length (Split line CHR '':'') \<noteq> 2
     \<Longrightarrow> poolDataLine st line = st"
  using Contains_min_size [of line] by (auto simp: poolDataLine_def Let_def)

lemma foldl_unchanged: "(\<And>x. x \<in> set xs \<Longrightarrow> f st x = st) \<Longrightarrow> foldl f st xs = st"
  by (induction xs) auto

lemma Split_line: "sep \<notin> set line \<Longrightarrow> Split (line @ sep # rest) sep = line # Split rest sep"
  by (simp add: Split_append_sep Split_no_sep)

lemma no_min_size_marker: "CHR '':'' \<notin> set v \<Longrightarrow> \<not> Contains (''size:'' @ v) ''min_size:''"
proof
  assume v: "CHR '':'' \<notin> set v" and "Contains (''size:'' @ v) ''min_size:''"
  then have "Contains v ''min_size:''" by simp
  then have "set ''min_size:'' \<subseteq> set v" by (rule Contains_set)
  then show False using v by simp
qed

lemma no_size_marker: "CHR '':'' \<notin> set v \<Longrightarrow> \<not> Contains (''pg_num:'' @ v) ''size:''"
proof
  assume v: "CHR '':'' \<notin> set v" and "Contains (''pg_num:'' @ v) ''size:''"
  then have "Contains v ''size:''" by simp
  then have "set ''size:'' \<subseteq> set v" by (rule Contains_set)
  then show False using v by simp
qed

lemma Contains_prefix_self: "Contains (p @ v) p"
  unfolding Contains_iff by (rule exI [of _ "[]"]) auto

lemma poolReadLine_size:
  assumes "CHR '':'' \<notin> set v"
  shows "poolReadLine st (''size:'' @ v) = st\<lparr>Size := Known (fst (ParseInt (TrimSpace v)))\<rparr>"
proof -
  have s: "Split (''size:'' @ v) CHR '':'' = [''size'', v]"
    using assms by (simp add: Split_no_sep)
  have c: "Contains (''size:'' @ v) ''size:''" by (rule Contains_prefix_self)
  show ?thesis
    using no_min_size_marker [OF assms] c s
    unfolding poolReadLine_def Let_def by simp
qed

lemma poolReadLine_min_size:
  assumes "CHR '':'' \<notin> set v"
  shows "\<exists>sz. poolReadLine st (''min_size:'' @ v) =
           st\<lparr>Size := sz, MinSize := Known (fst (ParseInt (TrimSpace v)))\<rparr>"
proof -
  have s: "Split (''min_size:'' @ v) CHR '':'' = [''min_size'', v]"
    using assms by (simp add: Split_no_sep)
  have c: "Contains (''min_size:'' @ v) ''min_size:''" by (rule Contains_prefix_self)
  show ?thesis
    using c s unfolding poolReadLine_def Let_def
    by (cases "Contains (''min_size:'' @ v) ''size:''") auto
qed


lemma poolDataLine_size:
  assumes "CHR '':'' \<notin> set v"
  shows "poolDataLine st (''size:'' @ v) = st\<lparr>dSize := Known (fst (ParseInt (TrimSpace v)))\<rparr>"
proof -
  have s: "Split (''size:'' @ v) CHR '':'' = [''size'', v]"
    using assms by (simp add: Split_no_sep)
  have c: "Contains (''size:'' @ v) ''size:''" by (rule Contains_prefix_self)
  have p: "\<not> Contains (''size:'' @ v) ''pg_num:''"
  proof
    assume "Contains (''size:'' @ v) ''pg_num:''"
    then have "Contains v ''pg_num:''" by simp
    then have "set ''pg_num:'' \<subseteq> set v" by (rule Contains_set)
    then show False using assms by simp
  qed
  show ?thesis
    using no_min_size_marker [OF assms] c p s
    unfolding poolDataLine_def Let_def by simp
qed

lemma poolDataLine_min_size:
  assumes "CHR '':'' \<notin> set v"
  shows "\<exists>sz. poolDataLine st (''min_size:'' @ v) =
           st\<lparr>dSize := sz, dMinSize := Known (fst (ParseInt (TrimSpace v)))\<rparr>"
proof -
  have s: "Split (''min_size:'' @ v) CHR '':'' = [''min_size'', v]"
    using assms by (simp add: Split_no_sep)
  have c: "Contains (''min_size:'' @ v) ''min_size:''" by (rule Contains_prefix_self)
  have p: "\<not> Contains (''min_size:'' @ v) ''pg_num:''"
  proof
    assume "Contains (''min_size:'' @ v) ''pg_num:''"
    then have "Contains v ''pg_num:''" by simp
    then have "set ''pg_num:'' \<subseteq> set v" by (rule Contains_set)
    then show False using assms by simp
  qed
  show ?thesis
    using c s p unfolding poolDataLine_def Let_def
    by (cases "Contains (''min_size:'' @ v) ''size:''") auto
qed

lemma poolDataLine_pg_num:
  assumes "CHR '':'' \<notin> set v"
  shows "poolDataLine st (''pg_num:'' @ v) = st\<lparr>dPgNum := Known (fst (ParseInt (TrimSpace v)))\<rparr>"
proof -
  have s: "Split (''pg_num:'' @ v) CHR '':'' = [''pg_num'', v]"
    using assms by (simp add: Split_no_sep)
  have c: "Contains (''pg_num:'' @ v) ''pg_num:''" by (rule Contains_prefix_self)
  have n: "\<not> Contains (''pg_num:'' @ v) ''size:''" by (rule no_size_marker [OF assms])
  then have m: "\<not> Contains (''pg_num:'' @ v) ''min_size:''" using Contains_min_size by blast
  show ?thesis
    using c s n m unfolding poolDataLine_def Let_def by simp
qed

lemma poolReadParse_unchanged:
  assumes "\<forall>line\<in>set (Split out CHR 0x0A).
             \<not> Contains line ''size:'' \<or> length (Split line CHR '':'') \<noteq> 2"
  shows "poolReadParse st out = st"
  unfolding poolReadParse_def
  using assms by (intro foldl_unchanged poolReadLine_unchanged) blast

lemma poolDataParse_unchanged:
  assumes "\<forall>line\<in>set (Split out CHR 0x0A).
             (\<not> Contains line ''size:'' \<and> \<not> Contains line ''pg_num:'') \<or>
             length (Split line CHR '':'') \<noteq> 2"
  shows "poolDataParse st out = st"
  unfolding poolDataParse_def
  using assms by (intro foldl_unchanged poolDataLine_unchanged) blast

lemma poolReadParse_step:
  "CHR 0x0A \<notin> set line \<Longrightarrow>
   poolReadParse st (line @ CHR 0x0A # rest) = poolReadParse (poolReadLine st line) rest"
  by (simp add: poolReadParse_def Split_line)

lemma poolReadParse_last:
  "CHR 0x0A \<notin> set line \<Longrightarrow> poolReadParse st line = poolReadLine st line"
  by (simp add: poolReadParse_def Split_no_sep)

lemma poolDataParse_step:
  "CHR 0x0A \<notin> set line \<Longrightarrow>
   poolDataParse st (line @ CHR 0x0A # rest) = poolDataParse (poolDataLine st line) rest"
  by (simp add: poolDataParse_def Split_line)

lemma poolDataParse_last:
  "CHR 0x0A \<notin> set line \<Longrightarrow> poolDataParse st line = poolDataLine st line"
  by (simp add: poolDataParse_def Split_no_sep)

lemma isDigit_value: "isDigit c \<Longrightarrow> 0 \<le> (of_char c :: int) - 48 \<and> (of_char c :: int) - 48 \<le> 9"
proof -
  assume "isDigit c"
  then have "48 \<le> (of_char c :: nat) \<and> (of_char c :: nat) \<le> 57" by (simp add: isDigit_def)
  then have "48 \<le> int (of_char c) \<and> int (of_char c) \<le> 57" by simp
  then show ?thesis by (simp add: of_nat_of_char)
qed

lemma parseUintLoop_syntax:
  "\<exists>c\<in>set (take k s). \<not> isDigit c \<Longrightarrow> 0 \<le> n \<Longrightarrow> (n + 1) * 10 ^ k \<le> 2 ^ 64 \<Longrightarrow>
   parseUintLoop n s = (0, Some ErrSyntax)"
proof (induction s arbitrary: n k)
  case Nil
  then show ?case by simp
next
  case (Cons c cs)
  then obtain k' where k: "k = Suc k'" by (cases k) auto
  show ?case
  proof (cases "isDigit c")
    case False
    then show ?thesis by simp
  next
    case True
    define d where "d = (of_char c :: int) - 48"
    have d: "0 \<le> d" "d \<le> 9" using isDigit_value [OF True] by (simp_all add: d_def)
    have p: "(1::int) \<le> 10 ^ k'" by simp
    have e: "(n + 1) * 10 ^ k = (n + 1) * 10 * 10 ^ k'" unfolding k by simp
    have b: "(n + 1) * 10 * 10 ^ k' \<le> 2 ^ 64" using Cons.prems(3) unfolding e .
    have "(n + 1) * 10 * 1 \<le> (n + 1) * 10 * 10 ^ k'"
      using p Cons.prems(2) by (intro mult_left_mono) auto
    then have n10: "(n + 1) * 10 \<le> 2 ^ 64" using b by simp
    have c1: "\<not> n \<ge> maxUint64 div 10 + 1" using n10 by (simp add: maxUint64_def)
    have c2: "\<not> n * 10 + d > maxUint64" using n10 d by (simp add: maxUint64_def)
    have ex: "\<exists>c\<in>set (take k' cs). \<not> isDigit c" using Cons.prems(1) True k by simp
    have m: "(n * 10 + d + 1) * 10 ^ k' \<le> ((n + 1) * 10) * 10 ^ k'"
      using d Cons.prems(2) by (intro mult_right_mono) auto
    have b': "(n * 10 + d + 1) * 10 ^ k' \<le> 2 ^ 64" by (rule order_trans [OF m b])
    have "parseUintLoop (n * 10 + d) cs = (0, Some ErrSyntax)"
      using Cons.IH [OF ex _ b'] d Cons.prems(2) by simp
    then show ?thesis using True c1 c2 by (simp add: d_def Let_def)
  qed
qed

lemma ParseInt_syntax:
  assumes "digitsBody s = [] \<or> (\<exists>c\<in>set (take 19 (digitsBody s)). \<not> isDigit c)"
  shows "ParseInt s = (0, Some ErrSyntax)"
proof (cases "s = []")
  case True
  then show ?thesis by (simp add: ParseInt_def)
next
  case False
  have u: "ParseUint (digitsBody s) = (0, Some ErrSyntax)"
  proof (cases "digitsBody s = []")
    case True
    then show ?thesis by (simp add: ParseUint_def)
  next
    case False
    then have "\<exists>c\<in>set (take 19 (digitsBody s)). \<not> isDigit c" using assms by simp
    then have "parseUintLoop 0 (digitsBody s) = (0, Some ErrSyntax)"
      by (rule parseUintLoop_syntax) simp_all
    then show ?thesis using False by (simp add: ParseUint_def)
  qed
  have b: "(if hd s = CHR ''+'' \<or> hd s = CHR ''-'' then tl s else s) = digitsBody s"
    using False by (simp add: digitsBody_def)
  show ?thesis
    using False u unfolding ParseInt_def Let_def b by simp
qed

subsection \<open>What the operations store\<close>

lemma poolRead_ok:
  "run issued (buildCmdArgs c (''ceph osd pool get '' @ ValueString (Name state) @ '' all'')) = Inr out \<Longrightarrow>
   fst (poolRead c run state issued) = Stored (poolReadParse state out)"
  by (simp add: poolRead_def ExecuteCommand_eq wrapError_def)

lemma blockImageRead_ok:
  "run issued (buildCmdArgs c (''rbd info '' @ ValueString (Pool state) @ ''/'' @
                               ValueString (iName state) @ '' --format json'')) = Inr out \<Longrightarrow>
   fst (blockImageRead c unmarshal run state issued) =
     (case unmarshal out of
        Inl err \<Rightarrow> Failed ''Failed to parse image info'' err
      | Inr imageInfo \<Rightarrow>
          Stored (case mapIndex imageInfo ''size'' of
                    JNumber f \<Rightarrow> state\<lparr>iSize := Known (fmt_f0 f @ ''B'')\<rparr>
                  | _ \<Rightarrow> state))"
  by (simp add: blockImageRead_def ExecuteCommand_eq wrapError_def asFloat64_eq
           split: sum.splits json.splits)

lemma poolReadLine_frame: "\<exists>sz ms. poolReadLine st line = st\<lparr>Size := sz, MinSize := ms\<rparr>"
proof -
  have "poolReadLine st line = st\<lparr>Size := Size (poolReadLine st line),
                                    MinSize := MinSize (poolReadLine st line)\<rparr>"
    by (simp add: poolReadLine_def Let_def)
  then show ?thesis by blast
qed

lemma poolReadParse_frame: "\<exists>sz ms. poolReadParse st out = st\<lparr>Size := sz, MinSize := ms\<rparr>"
proof -
  have "\<exists>sz ms. foldl poolReadLine st ls = st\<lparr>Size := sz, MinSize := ms\<rparr>" for ls
  proof (induction ls rule: rev_induct)
    case Nil
    have "st = st\<lparr>Size := Size st, MinSize := MinSize st\<rparr>" by simp
    then show ?case by (metis foldl_Nil)
  next
    case (snoc l ls)
    then obtain sz ms where a: "foldl poolReadLine st ls = st\<lparr>Size := sz, MinSize := ms\<rparr>"
      by blast
    obtain sz' ms' where
      "poolReadLine (st\<lparr>Size := sz, MinSize := ms\<rparr>) l =
         st\<lparr>Size := sz, MinSize := ms\<rparr>\<lparr>Size := sz', MinSize := ms'\<rparr>"
      using poolReadLine_frame by blast
    then have "foldl poolReadLine st (ls @ [l]) = st\<lparr>Size := sz', MinSize := ms'\<rparr>"
      using a by simp
    then show ?case by blast
  qed
  then show ?thesis by (simp add: poolReadParse_def)
qed

lemma poolDataLine_frame:
  "\<exists>pg sz ms. poolDataLine st line = st\<lparr>dPgNum := pg, dSize := sz, dMinSize := ms\<rparr>"
proof -
  have "poolDataLine st line = st\<lparr>dPgNum := dPgNum (poolDataLine st line),
                                    dSize := dSize (poolDataLine st line),
                                    dMinSize := dMinSize (poolDataLine st line)\<rparr>"
    by (simp add: poolDataLine_def Let_def)
  then show ?thesis by blast
qed

lemma poolDataParse_frame:
  "\<exists>pg sz ms. poolDataParse st out = st\<lparr>dPgNum := pg, dSize := sz, dMinSize := ms\<rparr>"
proof -
  have "\<exists>pg sz ms. foldl poolDataLine st ls = st\<lparr>dPgNum := pg, dSize := sz, dMinSize := ms\<rparr>"
    for ls
  proof (induction ls rule: rev_induct)
    case Nil
    have "st = st\<lparr>dPgNum := dPgNum st, dSize := dSize st, dMinSize := dMinSize st\<rparr>" by simp
    then show ?case by (metis foldl_Nil)
  next
    case (snoc l ls)
    then obtain pg sz ms where
      a: "foldl poolDataLine st ls = st\<lparr>dPgNum := pg, dSize := sz, dMinSize := ms\<rparr>"
      by blast
    obtain pg' sz' ms' where
      "poolDataLine (st\<lparr>dPgNum := pg, dSize := sz, dMinSize := ms\<rparr>) l =
         st\<lparr>dPgNum := pg, dSize := sz, dMinSize := ms\<rparr>
           \<lparr>dPgNum := pg', dSize := sz', dMinSize := ms'\<rparr>"
      using poolDataLine_frame by blast
    then have "foldl poolDataLine st (ls @ [l]) =
                 st\<lparr>dPgNum := pg', dSize := sz', dMinSize := ms'\<rparr>"
      using a by simp
    then show ?case by blast
  qed
  then show ?thesis by (simp add: poolDataParse_def)
qed

lemma poolDataRead_stored:
  assumes "run issued (buildCmdArgs c (''ceph osd pool get '' @ ValueString (dName config) @ '' all'')) = Inr out"
  shows "fst (poolDataRead c run config issued) =
           Stored ((poolDataParse \<lparr>dName = dName config, dPgNum = Null, dSize = Null,
                                   dMinSize = Null, dType = Null\<rparr> out)
                   \<lparr>dType := poolTypeOf
                      (run (issued @ [buildCmdArgs c (''ceph osd pool get '' @
                                        ValueString (dName config) @ '' all'')])
                         (buildCmdArgs c (''ceph osd pool get '' @ ValueString (dName config) @
                                          '' type'')))\<rparr>)"
proof -
  obtain pg sz ms where
    p: "poolDataParse \<lparr>dName = dName config, dPgNum = Null, dSize = Null, dMinSize = Null,
                       dType = Null\<rparr> out =
        \<lparr>dName = dName config, dPgNum = pg, dSize = sz, dMinSize = ms, dType = Null\<rparr>"
    using poolDataParse_frame
            [of "\<lparr>dName = dName config, dPgNum = Null, dSize = Null, dMinSize = Null,
                  dType = Null\<rparr>" out]
    by auto
  show ?thesis
    using assms
    by (simp add: poolDataRead_def ExecuteCommand_eq wrapError_def Let_def p poolTypeOf_def
             split: sum.splits)
qed

lemma status_fields:
  "parseServices status (parseHealth status
     \<lparr>Health = Null, OSDCount = Null, MonCount = Null, MGRCount = Null, PoolCount = Null\<rparr>) =
   \<lparr>Health = healthAt status, OSDCount = daemonCountAt status ''osd'',
     MonCount = daemonCountAt status ''mon'', MGRCount = daemonCountAt status ''mgr'',
     PoolCount = Null\<rparr>"
proof -
  have h: "healthAt status = Null \<or> (\<exists>s. healthAt status = Known s)"
    by (simp add: healthAt_def split: json.splits)
  have d: "daemonCountAt status svc = Null \<or> (\<exists>n. daemonCountAt status svc = Known n)" for svc
    by (simp add: daemonCountAt_def split: json.splits)
  show ?thesis
    using h d [of "''osd''"] d [of "''mon''"] d [of "''mgr''"]
    by (auto simp add: parseServices_eq parseHealth_eq setCount_def)
qed

lemma clusterStatusRead_decoded:
  assumes "run issued (buildCmdArgs c ''ceph status --format json'') = Inr out"
  shows "fst (clusterStatusRead c unmarshal run issued) =
           (case unmarshal out of
              Inl err \<Rightarrow> Failed ''Failed to parse cluster status'' err
            | Inr status \<Rightarrow>
                Stored \<lparr>Health = healthAt status,
                        OSDCount = daemonCountAt status ''osd'',
                        MonCount = daemonCountAt status ''mon'',
                        MGRCount = daemonCountAt status ''mgr'',
                        PoolCount =
                          poolCountOf
                            (run (issued @ [buildCmdArgs c ''ceph status --format json''])
                               (buildCmdArgs c ''ceph osd pool ls''))\<rparr>)"
  using assms
  by (simp add: clusterStatusRead_def ExecuteCommand_eq wrapError_def Let_def status_fields
           poolCountOf_def split: sum.splits)

subsection \<open>The claim\<close>

text \<open>
  Claim C3, as stated: every parsing step leaves the affected field unset or at its prior
  value, and no parse failure reaches the caller. Two inputs refute it. When the output of
  \<open>rbd info\<close> is not a JSON document, the block image Read stops with the diagnostic
  \<open>Failed to parse image info\<close>; here the decoder answers as \<open>encoding/json\<close> does on the
  empty document. And the line \<open>size: abc\<close> takes the size of a pool from 3 to 0, since
  the value that \<open>strconv.ParseInt\<close> returns with its error is stored.
\<close>

theorem read_parse_counterexample:
  "fst (blockImageRead \<lparr>ConfigFile = [], Keyring = [], User = []\<rparr>
          (\<lambda>doc. if doc = [] then Inl ''unexpected end of JSON input'' else Inr [])
          (\<lambda>issued args. Inr [])
          \<lparr>iName = Known ''img'', Pool = Known ''rbd'', iSize = Known ''1G'', Features = Null\<rparr>
          []) =
     Failed ''Failed to parse image info'' ''unexpected end of JSON input'' \<and>
   fst (poolRead \<lparr>ConfigFile = [], Keyring = [], User = []\<rparr>
          (\<lambda>issued args. Inr ''size: abc'')
          \<lparr>Name = Known ''test-pool'', PgNum = Known 32, PgpNum = Known 32, Size = Known 3,
            MinSize = Known 2, Type = Null, CrushRule = Null\<rparr> []) =
     Stored \<lparr>Name = Known ''test-pool'', PgNum = Known 32, PgpNum = Known 32, Size = Known 0,
              MinSize = Known 2, Type = Null, CrushRule = Null\<rparr>"
  by code_simp

text \<open>
  Claim C3, amended. Whenever the query succeeds, for every output text:

  \<^item> The colon-property parsing cannot fail: the pool Read and the pool data source Read
    store a state. The lines are taken in order. A line that does not hold the marker of
    a field (\<open>size:\<close>, and \<open>pg_num:\<close> in the data source) or that does not split into
    exactly two parts at its colons changes nothing, so an output of such lines leaves
    every field at its prior value, which is unset in the data source; and no line changes
    a field other than size, min_size and pg_num. A line made of the key of a field, a
    colon and a value without colon sets that field to the integer that
    \<open>strconv.ParseInt\<close> gives for the trimmed value (for the key \<open>min_size\<close> nothing is
    said here about the size). The error of \<open>ParseInt\<close> is dropped: when the value, after
    its sign, is empty or has a byte that is no digit among its first 19, the field is set
    to 0. The type of the data source is the trimmed text after the colon of the answer
    of the second query, and stays unset when that query fails or its answer does not
    split in two.
  \<^item> The JSON decoding can fail: the block image Read and the cluster status Read report
    the error of the decoder as a diagnostic. When the decoder accepts the text, the
    block image Read keeps the size of the prior state unless \<open>size\<close> is a number, and
    each field of the cluster status is the result of its own lookup, unset when the
    lookup fails.
  \<^item> The line-list parsing cannot fail: the pool count is the number of lines of the
    trimmed listing whenever the listing query succeeds.
\<close>

theorem read_parse_failures:
  "(run issued (buildCmdArgs c (''ceph osd pool get '' @ ValueString (Name pstate) @ '' all'')) =
      Inr out \<longrightarrow>
    fst (poolRead c run pstate issued) = Stored (poolReadParse pstate out)) \<and>
   (run issued (buildCmdArgs c (''ceph osd pool get '' @ ValueString (dName config) @ '' all'')) =
      Inr out \<longrightarrow>
    fst (poolDataRead c run config issued) =
      Stored ((poolDataParse \<lparr>dName = dName config, dPgNum = Null, dSize = Null,
                              dMinSize = Null, dType = Null\<rparr> out)
              \<lparr>dType := poolTypeOf
                 (run (issued @ [buildCmdArgs c (''ceph osd pool get '' @
                                   ValueString (dName config) @ '' all'')])
                    (buildCmdArgs c (''ceph osd pool get '' @ ValueString (dName config) @
                                     '' type'')))\<rparr>)) \<and>
   (CHR 0x0A \<notin> set line \<longrightarrow>
    poolReadParse st (line @ CHR 0x0A # rest) = poolReadParse (poolReadLine st line) rest \<and>
    poolReadParse st line = poolReadLine st line \<and>
    poolDataParse dst (line @ CHR 0x0A # rest) = poolDataParse (poolDataLine dst line) rest \<and>
    poolDataParse dst line = poolDataLine dst line) \<and>
   ((\<forall>l\<in>set (Split listing CHR 0x0A).
       \<not> Contains l ''size:'' \<or> length (Split l CHR '':'') \<noteq> 2) \<longrightarrow>
    poolReadParse st listing = st) \<and>
   ((\<forall>l\<in>set (Split listing CHR 0x0A).
       (\<not> Contains l ''size:'' \<and> \<not> Contains l ''pg_num:'') \<or> length (Split l CHR '':'') \<noteq> 2) \<longrightarrow>
    poolDataParse dst listing = dst) \<and>
   (\<exists>sz ms. poolReadParse st listing = st\<lparr>Size := sz, MinSize := ms\<rparr>) \<and>
   (\<exists>pg sz ms. poolDataParse dst listing = dst\<lparr>dPgNum := pg, dSize := sz, dMinSize := ms\<rparr>) \<and>
   (CHR '':'' \<notin> set v \<longrightarrow>
    poolReadLine st (''size:'' @ v) = st\<lparr>Size := Known (fst (ParseInt (TrimSpace v)))\<rparr> \<and>
    (\<exists>sz. poolReadLine st (''min_size:'' @ v) =
            st\<lparr>Size := sz, MinSize := Known (fst (ParseInt (TrimSpace v)))\<rparr>) \<and>
    poolDataLine dst (''size:'' @ v) = dst\<lparr>dSize := Known (fst (ParseInt (TrimSpace v)))\<rparr> \<and>
    (\<exists>sz. poolDataLine dst (''min_size:'' @ v) =
            dst\<lparr>dSize := sz, dMinSize := Known (fst (ParseInt (TrimSpace v)))\<rparr>) \<and>
    poolDataLine dst (''pg_num:'' @ v) = dst\<lparr>dPgNum := Known (fst (ParseInt (TrimSpace v)))\<rparr>) \<and>
   (digitsBody s = [] \<or> (\<exists>ch\<in>set (take 19 (digitsBody s)). \<not> isDigit ch) \<longrightarrow>
    ParseInt s = (0, Some ErrSyntax)) \<and>
   (run issued (buildCmdArgs c (''rbd info '' @ ValueString (Pool istate) @ ''/'' @
                                ValueString (iName istate) @ '' --format json'')) = Inr out \<longrightarrow>
    fst (blockImageRead c unmarshal run istate issued) =
      (case unmarshal out of
         Inl err \<Rightarrow> Failed ''Failed to parse image info'' err
       | Inr imageInfo \<Rightarrow>
           Stored (case mapIndex imageInfo ''size'' of
                     JNumber f \<Rightarrow> istate\<lparr>iSize := Known (fmt_f0 f @ ''B'')\<rparr>
                   | _ \<Rightarrow> istate))) \<and>
   (run issued (buildCmdArgs c ''ceph status --format json'') = Inr out \<longrightarrow>
    fst (clusterStatusRead c unmarshal run issued) =
      (case unmarshal out of
         Inl err \<Rightarrow> Failed ''Failed to parse cluster status'' err
       | Inr status \<Rightarrow>
           Stored \<lparr>Health = healthAt status,
                   OSDCount = daemonCountAt status ''osd'',
                   MonCount = daemonCountAt status ''mon'',
                   MGRCount = daemonCountAt status ''mgr'',
                   PoolCount =
                     poolCountOf
                       (run (issued @ [buildCmdArgs c ''ceph status --format json''])
                          (buildCmdArgs c ''ceph osd pool ls''))\<rparr>))"
proof (intro conjI impI)
  assume "run issued (buildCmdArgs c (''ceph osd pool get '' @ ValueString (Name pstate) @ '' all'')) = Inr out"
  then show "fst (poolRead c run pstate issued) = Stored (poolReadParse pstate out)"
    by (rule poolRead_ok)
next
  assume "run issued (buildCmdArgs c (''ceph osd pool get '' @ ValueString (dName config) @ '' all'')) = Inr out"
  then show "fst (poolDataRead c run config issued) =
      Stored ((poolDataParse \<lparr>dName = dName config, dPgNum = Null, dSize = Null,
                              dMinSize = Null, dType = Null\<rparr> out)
              \<lparr>dType := poolTypeOf
                 (run (issued @ [buildCmdArgs c (''ceph osd pool get '' @
                                   ValueString (dName config) @ '' all'')])
                    (buildCmdArgs c (''ceph osd pool get '' @ ValueString (dName config) @
                                     '' type'')))\<rparr>)"
    by (rule poolDataRead_stored)
next
  assume "CHR 0x0A \<notin> set line"
  then show "poolReadParse st (line @ CHR 0x0A # rest) = poolReadParse (poolReadLine st line) rest"
    and "poolReadParse st line = poolReadLine st line"
    and "poolDataParse dst (line @ CHR 0x0A # rest) = poolDataParse (poolDataLine dst line) rest"
    and "poolDataParse dst line = poolDataLine dst line"
    by (rule poolReadParse_step poolReadParse_last poolDataParse_step poolDataParse_last)+
next
  assume "\<forall>l\<in>set (Split listing CHR 0x0A). \<not> Contains l ''size:'' \<or> length (Split l CHR '':'') \<noteq> 2"
  then show "poolReadParse st listing = st" by (rule poolReadParse_unchanged)
next
  assume "\<forall>l\<in>set (Split listing CHR 0x0A).
       (\<not> Contains l ''size:'' \<and> \<not> Contains l ''pg_num:'') \<or> length (Split l CHR '':'') \<noteq> 2"
  then show "poolDataParse dst listing = dst" by (rule poolDataParse_unchanged)
next
  show "\<exists>sz ms. poolReadParse st listing = st\<lparr>Size := sz, MinSize := ms\<rparr>"
    by (rule poolReadParse_frame)
next
  show "\<exists>pg sz ms. poolDataParse dst listing = dst\<lparr>dPgNum := pg, dSize := sz, dMinSize := ms\<rparr>"
    by (rule poolDataParse_frame)
next
  assume v: "CHR '':'' \<notin> set v"
  show "poolReadLine st (''size:'' @ v) = st\<lparr>Size := Known (fst (ParseInt (TrimSpace v)))\<rparr>"
    by (rule poolReadLine_size [OF v])
  show "\<exists>sz. poolReadLine st (''min_size:'' @ v) =
            st\<lparr>Size := sz, MinSize := Known (fst (ParseInt (TrimSpace v)))\<rparr>"
    by (rule poolReadLine_min_size [OF v])
  show "poolDataLine dst (''size:'' @ v) = dst\<lparr>dSize := Known (fst (ParseInt (TrimSpace v)))\<rparr>"
    by (rule poolDataLine_size [OF v])
  show "\<exists>sz. poolDataLine dst (''min_size:'' @ v) =
            dst\<lparr>dSize := sz, dMinSize := Known (fst (ParseInt (TrimSpace v)))\<rparr>"
    by (rule poolDataLine_min_size [OF v])
  show "poolDataLine dst (''pg_num:'' @ v) = dst\<lparr>dPgNum := Known (fst (ParseInt (TrimSpace v)))\<rparr>"
    by (rule poolDataLine_pg_num [OF v])
next
  assume "digitsBody s = [] \<or> (\<exists>ch\<in>set (take 19 (digitsBody s)). \<not> isDigit ch)"
  then show "ParseInt s = (0, Some ErrSyntax)" by (rule ParseInt_syntax)
next
  assume "run issued (buildCmdArgs c (''rbd info '' @ ValueString (Pool istate) @ ''/'' @
                                ValueString (iName istate) @ '' --format json'')) = Inr out"
  then show "fst (blockImageRead c unmarshal run istate issued) =
      (case unmarshal out of
         Inl err \<Rightarrow> Failed ''Failed to parse image info'' err
       | Inr imageInfo \<Rightarrow>
           Stored (case mapIndex imageInfo ''size'' of
                     JNumber f \<Rightarrow> istate\<lparr>iSize := Known (fmt_f0 f @ ''B'')\<rparr>
                   | _ \<Rightarrow> istate))"
    by (rule blockImageRead_ok)
next
  assume "run issued (buildCmdArgs c ''ceph status --format json'') = Inr out"
  then show "fst (clusterStatusRead c unmarshal run issued) =
      (case unmarshal out of
         Inl err \<Rightarrow> Failed ''Failed to parse cluster status'' err
       | Inr status \<Rightarrow>
           Stored \<lparr>Health = healthAt status,
                   OSDCount = daemonCountAt status ''osd'',
                   MonCount = daemonCountAt status ''mon'',
                   MGRCount = daemonCountAt status ''mgr'',
                   PoolCount =
                     poolCountOf
                       (run (issued @ [buildCmdArgs c ''ceph status --format json''])
                          (buildCmdArgs c ''ceph osd pool ls''))\<rparr>)"
    by (rule clusterStatusRead_decoded)
qed


theorem read_parse_failures_witness:
  "fst (poolRead \<lparr>ConfigFile = [], Keyring = [], User = []\<rparr> (\<lambda>issued args. Inr ''{}'')
          \<lparr>Name = Known ''p'', PgNum = Null, PgpNum = Null, Size = Known 3, MinSize = Null,
            Type = Null, CrushRule = Null\<rparr> []) =
     Stored \<lparr>Name = Known ''p'', PgNum = Null, PgpNum = Null, Size = Known 3, MinSize = Null,
              Type = Null, CrushRule = Null\<rparr> \<and>
   fst (poolDataRead \<lparr>ConfigFile = [], Keyring = [], User = []\<rparr> (\<lambda>issued args. Inr ''{}'')
          \<lparr>dName = Known ''rbd'', dPgNum = Null, dSize = Null, dMinSize = Null, dType = Null\<rparr>
          []) =
     Stored \<lparr>dName = Known ''rbd'', dPgNum = Null, dSize = Null, dMinSize = Null,
              dType = Null\<rparr> \<and>
   poolReadParse \<lparr>Name = Known ''p'', PgNum = Null, PgpNum = Null, Size = Known 3,
                   MinSize = Null, Type = Null, CrushRule = Null\<rparr>
     (''foo: bar'' @ CHR 0x0A # ''a:b:c'') =
     \<lparr>Name = Known ''p'', PgNum = Null, PgpNum = Null, Size = Known 3, MinSize = Null,
       Type = Null, CrushRule = Null\<rparr> \<and>
   poolReadLine \<lparr>Name = Known ''p'', PgNum = Null, PgpNum = Null, Size = Known 3,
                  MinSize = Null, Type = Null, CrushRule = Null\<rparr> ''size: abc'' =
     \<lparr>Name = Known ''p'', PgNum = Null, PgpNum = Null, Size = Known 0, MinSize = Null,
       Type = Null, CrushRule = Null\<rparr> \<and>
   poolDataLine \<lparr>dName = Known ''rbd'', dPgNum = Null, dSize = Null, dMinSize = Null,
                  dType = Null\<rparr> ''pg_num: abc'' =
     \<lparr>dName = Known ''rbd'', dPgNum = Known 0, dSize = Null, dMinSize = Null, dType = Null\<rparr> \<and>
   ParseInt ''abc'' = (0, Some ErrSyntax) \<and>
   fst (blockImageRead \<lparr>ConfigFile = [], Keyring = [], User = []\<rparr>
          (\<lambda>doc. if doc = ''{}'' then Inr [] else Inl ''unexpected end of JSON input'')
          (\<lambda>issued args. Inr ''{}'')
          \<lparr>iName = Known ''img'', Pool = Known ''rbd'', iSize = Known ''1G'', Features = Null\<rparr>
          []) =
     Stored \<lparr>iName = Known ''img'', Pool = Known ''rbd'', iSize = Known ''1G'',
              Features = Null\<rparr> \<and>
   fst (clusterStatusRead \<lparr>ConfigFile = [], Keyring = [], User = []\<rparr>
          (\<lambda>doc. if doc = ''{}'' then Inr [] else Inl ''unexpected end of JSON input'')
          (\<lambda>issued args. Inr ''{}'') []) =
     Stored \<lparr>Health = Null, OSDCount = Null, MonCount = Null, MGRCount = Null,
              PoolCount = Known 1\<rparr>"
proof -
  note T = read_parse_failures
    [where run = "\<lambda>issued args. Inr ''{}''" and issued = "[]"
       and c = "\<lparr>ConfigFile = [], Keyring = [], User = []\<rparr>" and out = "''{}''"
       and unmarshal = "\<lambda>doc. if doc = ''{}'' then Inr []
                              else Inl ''unexpected end of JSON input''"
       and pstate = "\<lparr>Name = Known ''p'', PgNum = Null, PgpNum = Null, Size = Known 3,
                      MinSize = Null, Type = Null, CrushRule = Null\<rparr>"
       and st = "\<lparr>Name = Known ''p'', PgNum = Null, PgpNum = Null, Size = Known 3,
                  MinSize = Null, Type = Null, CrushRule = Null\<rparr>"
       and config = "\<lparr>dName = Known ''rbd'', dPgNum = Null, dSize = Null, dMinSize = Null,
                      dType = Null\<rparr>"
       and dst = "\<lparr>dName = Known ''rbd'', dPgNum = Null, dSize = Null, dMinSize = Null,
                   dType = Null\<rparr>"
       and istate = "\<lparr>iName = Known ''img'', Pool = Known ''rbd'', iSize = Known ''1G'',
                      Features = Null\<rparr>"
       and line = "''pg_num: 32''" and rest = "''size: 3''"
       and listing = "''foo: bar'' @ CHR 0x0A # ''a:b:c''" and v = "'' abc''" and s = "''abc''"]
  have e1: "poolReadParse \<lparr>Name = Known ''p'', PgNum = Null, PgpNum = Null, Size = Known 3,
              MinSize = Null, Type = Null, CrushRule = Null\<rparr> ''{}'' =
            \<lparr>Name = Known ''p'', PgNum = Null, PgpNum = Null, Size = Known 3, MinSize = Null,
              Type = Null, CrushRule = Null\<rparr>"
    by code_simp
  have e2: "poolDataParse \<lparr>dName = Known ''rbd'', dPgNum = Null, dSize = Null, dMinSize = Null,
              dType = Null\<rparr> ''{}'' =
            \<lparr>dName = Known ''rbd'', dPgNum = Null, dSize = Null, dMinSize = Null, dType = Null\<rparr>"
    by code_simp
  have e3: "poolTypeOf (Inr ''{}'') = Null" by code_simp
  have e4: "poolCountOf (Inr ''{}'') = Known 1" by code_simp
  have e5: "TrimSpace '' abc'' = ''abc''" by code_simp
  have h1: "CHR 0x0A \<notin> set ''pg_num: 32''" by simp
  have h2: "\<forall>l\<in>set (Split (''foo: bar'' @ CHR 0x0A # ''a:b:c'') CHR 0x0A).
              \<not> Contains l ''size:'' \<or> length (Split l CHR '':'') \<noteq> 2"
    by code_simp
  have h3: "\<forall>l\<in>set (Split (''foo: bar'' @ CHR 0x0A # ''a:b:c'') CHR 0x0A).
              (\<not> Contains l ''size:'' \<and> \<not> Contains l ''pg_num:'') \<or>
              length (Split l CHR '':'') \<noteq> 2"
    by code_simp
  have h4: "CHR '':'' \<notin> set '' abc''" by simp
  have h5: "digitsBody ''abc'' = [] \<or> (\<exists>ch\<in>set (take 19 (digitsBody ''abc'')). \<not> isDigit ch)"
    by code_simp
  have p: "ParseInt ''abc'' = (0, Some ErrSyntax)" using T h5 by blast
  have r1: "poolReadParse \<lparr>Name = Known ''p'', PgNum = Null, PgpNum = Null, Size = Known 3,
                   MinSize = Null, Type = Null, CrushRule = Null\<rparr>
              (''foo: bar'' @ CHR 0x0A # ''a:b:c'') =
            \<lparr>Name = Known ''p'', PgNum = Null, PgpNum = Null, Size = Known 3, MinSize = Null,
              Type = Null, CrushRule = Null\<rparr>"
    using T h2 by blast
  have r2: "poolReadLine \<lparr>Name = Known ''p'', PgNum = Null, PgpNum = Null, Size = Known 3,
                  MinSize = Null, Type = Null, CrushRule = Null\<rparr> (''size:'' @ '' abc'') =
            \<lparr>Name = Known ''p'', PgNum = Null, PgpNum = Null, Size = Known 3, MinSize = Null,
              Type = Null, CrushRule = Null\<rparr>
              \<lparr>Size := Known (fst (ParseInt (TrimSpace '' abc'')))\<rparr>"
    using T h4 by blast
  have r3: "poolDataLine \<lparr>dName = Known ''rbd'', dPgNum = Null, dSize = Null, dMinSize = Null,
                  dType = Null\<rparr> (''pg_num:'' @ '' abc'') =
            \<lparr>dName = Known ''rbd'', dPgNum = Null, dSize = Null, dMinSize = Null, dType = Null\<rparr>
              \<lparr>dPgNum := Known (fst (ParseInt (TrimSpace '' abc'')))\<rparr>"
    using T h4 by blast
  have o1: "fst (poolRead \<lparr>ConfigFile = [], Keyring = [], User = []\<rparr> (\<lambda>issued args. Inr ''{}'')
          \<lparr>Name = Known ''p'', PgNum = Null, PgpNum = Null, Size = Known 3, MinSize = Null,
            Type = Null, CrushRule = Null\<rparr> []) =
     Stored (poolReadParse \<lparr>Name = Known ''p'', PgNum = Null, PgpNum = Null, Size = Known 3,
              MinSize = Null, Type = Null, CrushRule = Null\<rparr> ''{}'')"
    using T by simp
  have o2: "fst (poolDataRead \<lparr>ConfigFile = [], Keyring = [], User = []\<rparr>
                  (\<lambda>issued args. Inr ''{}'')
                  \<lparr>dName = Known ''rbd'', dPgNum = Null, dSize = Null, dMinSize = Null,
                    dType = Null\<rparr> []) =
     Stored ((poolDataParse \<lparr>dName = Known ''rbd'', dPgNum = Null, dSize = Null,
                dMinSize = Null, dType = Null\<rparr> ''{}'')\<lparr>dType := poolTypeOf (Inr ''{}'')\<rparr>)"
    using T by simp
  have o3: "fst (blockImageRead \<lparr>ConfigFile = [], Keyring = [], User = []\<rparr>
          (\<lambda>doc. if doc = ''{}'' then Inr [] else Inl ''unexpected end of JSON input'')
          (\<lambda>issued args. Inr ''{}'')
          \<lparr>iName = Known ''img'', Pool = Known ''rbd'', iSize = Known ''1G'', Features = Null\<rparr>
          []) =
     Stored \<lparr>iName = Known ''img'', Pool = Known ''rbd'', iSize = Known ''1G'',
              Features = Null\<rparr>"
    using T by (simp add: mapIndex_def)
  have o4: "fst (clusterStatusRead \<lparr>ConfigFile = [], Keyring = [], User = []\<rparr>
          (\<lambda>doc. if doc = ''{}'' then Inr [] else Inl ''unexpected end of JSON input'')
          (\<lambda>issued args. Inr ''{}'') []) =
     Stored \<lparr>Health = healthAt [], OSDCount = daemonCountAt [] ''osd'',
              MonCount = daemonCountAt [] ''mon'', MGRCount = daemonCountAt [] ''mgr'',
              PoolCount = poolCountOf (Inr ''{}'')\<rparr>"
    using T by simp
  show ?thesis
    using o1 o2 o3 o4 r1 r2 r3 p
    by (simp add: e1 e2 e3 e4 e5 healthAt_def daemonCountAt_def mapIndex_def)
qed

end
